theory Spec2Isabelle
  imports Main "HOL-Library.Multiset"
begin

section \<open>Values and objects\<close>

text \<open>
  The repository is TypeScript. Its entities are plain objects whose properties hold the
  values of the column types of \<^verbatim>\<open>shared/schema.ts\<close>: integers, texts, \<^verbatim>\<open>null\<close>, and
  \<^verbatim>\<open>undefined\<close> for a property that is read but was never written. A number is an
  \<^typ>\<open>int\<close>: identifiers, foreign keys, counts and thresholds are integer valued, and the
  model is exact as long as they stay in the range where a double holds every integer
  (below \<open>2 ^ 53\<close> in absolute value). A timestamp is carried as its time value, a
  number: the store never looks into it. Comparison with \<^verbatim>\<open>===\<close> is equality of
  \<^typ>\<open>int\<close>s and of the values below. \<^verbatim>\<open>NaN\<close> is the key of no entry and the value of
  no identifier; where the code can meet it (a limit that does not parse, a threshold
  that is not set) the model has an \<open>option\<close>.
\<close>

datatype jsval = JUndefined | JNull | JNum int | JStr string

text \<open>
  An object is a map from property names to values. The storage layer builds objects
  with the spread syntax only, and nothing reads the order of the properties.
\<close>

type_synonym obj = "string \<rightharpoonup> jsval"

text \<open>\<^verbatim>\<open>o.f\<close>: a missing property reads as \<^verbatim>\<open>undefined\<close>.\<close>

definition get_prop :: "obj \<Rightarrow> string \<Rightarrow> jsval" where
  "get_prop ob f = (case ob f of None \<Rightarrow> JUndefined | Some v \<Rightarrow> v)"

text \<open>\<^verbatim>\<open>{ ...data, id }\<close>: the properties of \<open>data\<close>, then \<open>id\<close>, which wins.\<close>

definition with_id :: "obj \<Rightarrow> int \<Rightarrow> obj" where
  "with_id data id' = data(''id'' \<mapsto> JNum id')"

text \<open>\<^verbatim>\<open>{ ...a, ...b }\<close>: the properties of \<open>a\<close>, overwritten by those \<open>b\<close> has.\<close>

definition spread :: "obj \<Rightarrow> obj \<Rightarrow> obj" where
  "spread a b = a ++ b"

section \<open>The JavaScript \<^verbatim>\<open>Map\<close>\<close>

text \<open>
  A \<^verbatim>\<open>Map\<close> iterates in insertion order: \<^verbatim>\<open>set\<close> on a key it holds replaces the value
  where the entry stands, \<^verbatim>\<open>set\<close> on a new key appends an entry, \<^verbatim>\<open>delete\<close> removes the
  entry and answers whether there was one. It is modelled as the list of its entries.
\<close>

type_synonym ('k, 'v) jsmap = "('k \<times> 'v) list"

definition Map_get :: "('k, 'v) jsmap \<Rightarrow> 'k \<Rightarrow> 'v option" where
  "Map_get m k = map_of m k"

definition Map_has :: "('k, 'v) jsmap \<Rightarrow> 'k \<Rightarrow> bool" where
  "Map_has m k = (k \<in> set (map fst m))"

fun Map_set :: "('k, 'v) jsmap \<Rightarrow> 'k \<Rightarrow> 'v \<Rightarrow> ('k, 'v) jsmap" where
  "Map_set [] k v = [(k, v)]"
| "Map_set ((k', v') # m) k v =
     (if k' = k then (k, v) # m else (k', v') # Map_set m k v)"

definition Map_delete :: "('k, 'v) jsmap \<Rightarrow> 'k \<Rightarrow> bool \<times> ('k, 'v) jsmap" where
  "Map_delete m k = (Map_has m k, filter (\<lambda>e. fst e \<noteq> k) m)"

definition Map_values :: "('k, 'v) jsmap \<Rightarrow> 'v list" where
  "Map_values m = map snd m"

definition Map_entries :: "('k, 'v) jsmap \<Rightarrow> ('k \<times> 'v) list" where
  "Map_entries m = m"

section \<open>The in-memory store\<close>

text \<open>
  \<^verbatim>\<open>MemStorage\<close> holds one \<^verbatim>\<open>Map<number, T>\<close> per entity and the object \<^verbatim>\<open>nextIds\<close>, which
  has one counter per collection. The counters are indexed by the keys of \<^verbatim>\<open>nextIds\<close>.
\<close>

datatype coll =
    Users | Departments | Courses | Modules | ModuleElements | TeacherModuleElements
  | Students | StudentGroups | StudentGroupAssignments | Sessions | Absences

record MemStorage =
  users :: "(int, obj) jsmap"
  departments :: "(int, obj) jsmap"
  courses :: "(int, obj) jsmap"
  modules :: "(int, obj) jsmap"
  moduleElements :: "(int, obj) jsmap"
  teacherModuleElements :: "(int, obj) jsmap"
  students :: "(int, obj) jsmap"
  studentGroups :: "(int, obj) jsmap"
  studentGroupAssignments :: "(int, obj) jsmap"
  sessions :: "(int, obj) jsmap"
  absences :: "(int, obj) jsmap"
  nextIds :: "coll \<Rightarrow> int"

text \<open>
  Every method is a function of the store (\<open>this\<close>) that returns its result together
  with the store it leaves. The methods are \<^verbatim>\<open>async\<close> but none of them awaits anything
  before it is done, except \<^verbatim>\<open>listStudentsByGroup\<close> and \<^verbatim>\<open>batchCreateAbsences\<close>, which
  await their own helpers: each call runs to its end on the single thread.
\<close>

subsection \<open>User operations\<close>

definition getUser :: "MemStorage \<Rightarrow> int \<Rightarrow> obj option" where
  "getUser this id' = Map_get (users this) id'"

definition getUserByUsername :: "MemStorage \<Rightarrow> string \<Rightarrow> obj option" where
  "getUserByUsername this username =
     find (\<lambda>user. get_prop user ''username'' = JStr username) (Map_values (users this))"

definition createUser :: "MemStorage \<Rightarrow> obj \<Rightarrow> obj \<times> MemStorage" where
  "createUser this user =
     (let id' = nextIds this Users;
          this1 = this\<lparr>nextIds := (nextIds this)(Users := id' + 1)\<rparr>;
          newUser = with_id user id';
          this2 = this1\<lparr>users := Map_set (users this1) id' newUser\<rparr>
      in (newUser, this2))"

definition updateUser :: "MemStorage \<Rightarrow> int \<Rightarrow> obj \<Rightarrow> obj option \<times> MemStorage" where
  "updateUser this id' user =
     (case Map_get (users this) id' of
        None \<Rightarrow> (None, this)
      | Some existingUser \<Rightarrow>
          (let updatedUser = spread existingUser user;
               this1 = this\<lparr>users := Map_set (users this) id' updatedUser\<rparr>
           in (Some updatedUser, this1)))"

definition deleteUser :: "MemStorage \<Rightarrow> int \<Rightarrow> bool \<times> MemStorage" where
  "deleteUser this id' =
     (let (existed, m) = Map_delete (users this) id'
      in (existed, this\<lparr>users := m\<rparr>))"

definition listUsers :: "MemStorage \<Rightarrow> obj list" where
  "listUsers this = Map_values (users this)"

subsection \<open>Department operations\<close>

definition getDepartment :: "MemStorage \<Rightarrow> int \<Rightarrow> obj option" where
  "getDepartment this id' = Map_get (departments this) id'"

definition createDepartment :: "MemStorage \<Rightarrow> obj \<Rightarrow> obj \<times> MemStorage" where
  "createDepartment this department =
     (let id' = nextIds this Departments;
          this1 = this\<lparr>nextIds := (nextIds this)(Departments := id' + 1)\<rparr>;
          newDepartment = with_id department id';
          this2 = this1\<lparr>departments := Map_set (departments this1) id' newDepartment\<rparr>
      in (newDepartment, this2))"

definition updateDepartment :: "MemStorage \<Rightarrow> int \<Rightarrow> obj \<Rightarrow> obj option \<times> MemStorage" where
  "updateDepartment this id' department =
     (case Map_get (departments this) id' of
        None \<Rightarrow> (None, this)
      | Some existingDepartment \<Rightarrow>
          (let updatedDepartment = spread existingDepartment department;
               this1 = this\<lparr>departments := Map_set (departments this) id' updatedDepartment\<rparr>
           in (Some updatedDepartment, this1)))"

definition deleteDepartment :: "MemStorage \<Rightarrow> int \<Rightarrow> bool \<times> MemStorage" where
  "deleteDepartment this id' =
     (let (existed, m) = Map_delete (departments this) id'
      in (existed, this\<lparr>departments := m\<rparr>))"

definition listDepartments :: "MemStorage \<Rightarrow> obj list" where
  "listDepartments this = Map_values (departments this)"

subsection \<open>Course operations\<close>

definition getCourse :: "MemStorage \<Rightarrow> int \<Rightarrow> obj option" where
  "getCourse this id' = Map_get (courses this) id'"

definition createCourse :: "MemStorage \<Rightarrow> obj \<Rightarrow> obj \<times> MemStorage" where
  "createCourse this course =
     (let id' = nextIds this Courses;
          this1 = this\<lparr>nextIds := (nextIds this)(Courses := id' + 1)\<rparr>;
          newCourse = with_id course id';
          this2 = this1\<lparr>courses := Map_set (courses this1) id' newCourse\<rparr>
      in (newCourse, this2))"

definition updateCourse :: "MemStorage \<Rightarrow> int \<Rightarrow> obj \<Rightarrow> obj option \<times> MemStorage" where
  "updateCourse this id' course =
     (case Map_get (courses this) id' of
        None \<Rightarrow> (None, this)
      | Some existingCourse \<Rightarrow>
          (let updatedCourse = spread existingCourse course;
               this1 = this\<lparr>courses := Map_set (courses this) id' updatedCourse\<rparr>
           in (Some updatedCourse, this1)))"

definition deleteCourse :: "MemStorage \<Rightarrow> int \<Rightarrow> bool \<times> MemStorage" where
  "deleteCourse this id' =
     (let (existed, m) = Map_delete (courses this) id'
      in (existed, this\<lparr>courses := m\<rparr>))"

definition listCourses :: "MemStorage \<Rightarrow> obj list" where
  "listCourses this = Map_values (courses this)"

definition listCoursesByDepartment :: "MemStorage \<Rightarrow> int \<Rightarrow> obj list" where
  "listCoursesByDepartment this departmentId =
     filter (\<lambda>course. get_prop course ''departmentId'' = JNum departmentId) (Map_values (courses this))"

subsection \<open>Module operations\<close>

definition getModule :: "MemStorage \<Rightarrow> int \<Rightarrow> obj option" where
  "getModule this id' = Map_get (modules this) id'"

definition createModule :: "MemStorage \<Rightarrow> obj \<Rightarrow> obj \<times> MemStorage" where
  "createModule this module =
     (let id' = nextIds this Modules;
          this1 = this\<lparr>nextIds := (nextIds this)(Modules := id' + 1)\<rparr>;
          newModule = with_id module id';
          this2 = this1\<lparr>modules := Map_set (modules this1) id' newModule\<rparr>
      in (newModule, this2))"

definition updateModule :: "MemStorage \<Rightarrow> int \<Rightarrow> obj \<Rightarrow> obj option \<times> MemStorage" where
  "updateModule this id' module =
     (case Map_get (modules this) id' of
        None \<Rightarrow> (None, this)
      | Some existingModule \<Rightarrow>
          (let updatedModule = spread existingModule module;
               this1 = this\<lparr>modules := Map_set (modules this) id' updatedModule\<rparr>
           in (Some updatedModule, this1)))"

definition deleteModule :: "MemStorage \<Rightarrow> int \<Rightarrow> bool \<times> MemStorage" where
  "deleteModule this id' =
     (let (existed, m) = Map_delete (modules this) id'
      in (existed, this\<lparr>modules := m\<rparr>))"

definition listModules :: "MemStorage \<Rightarrow> obj list" where
  "listModules this = Map_values (modules this)"

definition listModulesByCourse :: "MemStorage \<Rightarrow> int \<Rightarrow> obj list" where
  "listModulesByCourse this courseId =
     filter (\<lambda>module. get_prop module ''courseId'' = JNum courseId) (Map_values (modules this))"

subsection \<open>ModuleElement operations\<close>

definition getModuleElement :: "MemStorage \<Rightarrow> int \<Rightarrow> obj option" where
  "getModuleElement this id' = Map_get (moduleElements this) id'"

definition createModuleElement :: "MemStorage \<Rightarrow> obj \<Rightarrow> obj \<times> MemStorage" where
  "createModuleElement this moduleElement =
     (let id' = nextIds this ModuleElements;
          this1 = this\<lparr>nextIds := (nextIds this)(ModuleElements := id' + 1)\<rparr>;
          newModuleElement = with_id moduleElement id';
          this2 = this1\<lparr>moduleElements := Map_set (moduleElements this1) id' newModuleElement\<rparr>
      in (newModuleElement, this2))"

definition updateModuleElement :: "MemStorage \<Rightarrow> int \<Rightarrow> obj \<Rightarrow> obj option \<times> MemStorage" where
  "updateModuleElement this id' moduleElement =
     (case Map_get (moduleElements this) id' of
        None \<Rightarrow> (None, this)
      | Some existingModuleElement \<Rightarrow>
          (let updatedModuleElement = spread existingModuleElement moduleElement;
               this1 = this\<lparr>moduleElements := Map_set (moduleElements this) id' updatedModuleElement\<rparr>
           in (Some updatedModuleElement, this1)))"

definition deleteModuleElement :: "MemStorage \<Rightarrow> int \<Rightarrow> bool \<times> MemStorage" where
  "deleteModuleElement this id' =
     (let (existed, m) = Map_delete (moduleElements this) id'
      in (existed, this\<lparr>moduleElements := m\<rparr>))"

definition listModuleElements :: "MemStorage \<Rightarrow> obj list" where
  "listModuleElements this = Map_values (moduleElements this)"

definition listModuleElementsByModule :: "MemStorage \<Rightarrow> int \<Rightarrow> obj list" where
  "listModuleElementsByModule this moduleId =
     filter (\<lambda>moduleElement. get_prop moduleElement ''moduleId'' = JNum moduleId) (Map_values (moduleElements this))"

subsection \<open>Teacher Module Element operations\<close>

definition assignTeacherToModuleElement :: "MemStorage \<Rightarrow> obj \<Rightarrow> obj \<times> MemStorage" where
  "assignTeacherToModuleElement this assignment =
     (let id' = nextIds this TeacherModuleElements;
          this1 = this\<lparr>nextIds := (nextIds this)(TeacherModuleElements := id' + 1)\<rparr>;
          newAssignment = with_id assignment id';
          this2 = this1\<lparr>teacherModuleElements :=
                    Map_set (teacherModuleElements this1) id' newAssignment\<rparr>
      in (newAssignment, this2))"

text \<open>
  \<^verbatim>\<open>delete(assignment.id)\<close>: the keys of the map are numbers, so a value that is not a
  number is the key of no entry.
\<close>

definition Map_delete_val :: "(int, obj) jsmap \<Rightarrow> jsval \<Rightarrow> bool \<times> (int, obj) jsmap" where
  "Map_delete_val m v = (case v of JNum k \<Rightarrow> Map_delete m k | _ \<Rightarrow> (False, m))"

definition removeTeacherFromModuleElement ::
    "MemStorage \<Rightarrow> int \<Rightarrow> int \<Rightarrow> bool \<times> MemStorage" where
  "removeTeacherFromModuleElement this teacherId moduleElementId =
     (case find (\<lambda>a. get_prop a ''teacherId'' = JNum teacherId
                     \<and> get_prop a ''moduleElementId'' = JNum moduleElementId)
             (Map_values (teacherModuleElements this)) of
        None \<Rightarrow> (False, this)
      | Some assignment \<Rightarrow>
          (let (existed, m) = Map_delete_val (teacherModuleElements this) (get_prop assignment ''id'')
           in (existed, this\<lparr>teacherModuleElements := m\<rparr>)))"

definition listTeacherModuleElements :: "MemStorage \<Rightarrow> int \<Rightarrow> obj list" where
  "listTeacherModuleElements this teacherId =
     filter (\<lambda>assignment. get_prop assignment ''teacherId'' = JNum teacherId)
       (Map_values (teacherModuleElements this))"

subsection \<open>Student operations\<close>

definition getStudent :: "MemStorage \<Rightarrow> int \<Rightarrow> obj option" where
  "getStudent this id' = Map_get (students this) id'"

definition createStudent :: "MemStorage \<Rightarrow> obj \<Rightarrow> obj \<times> MemStorage" where
  "createStudent this student =
     (let id' = nextIds this Students;
          this1 = this\<lparr>nextIds := (nextIds this)(Students := id' + 1)\<rparr>;
          newStudent = with_id student id';
          this2 = this1\<lparr>students := Map_set (students this1) id' newStudent\<rparr>
      in (newStudent, this2))"

definition updateStudent :: "MemStorage \<Rightarrow> int \<Rightarrow> obj \<Rightarrow> obj option \<times> MemStorage" where
  "updateStudent this id' student =
     (case Map_get (students this) id' of
        None \<Rightarrow> (None, this)
      | Some existingStudent \<Rightarrow>
          (let updatedStudent = spread existingStudent student;
               this1 = this\<lparr>students := Map_set (students this) id' updatedStudent\<rparr>
           in (Some updatedStudent, this1)))"

definition deleteStudent :: "MemStorage \<Rightarrow> int \<Rightarrow> bool \<times> MemStorage" where
  "deleteStudent this id' =
     (let (existed, m) = Map_delete (students this) id'
      in (existed, this\<lparr>students := m\<rparr>))"

definition listStudents :: "MemStorage \<Rightarrow> obj list" where
  "listStudents this = Map_values (students this)"

definition listStudentsByCourse :: "MemStorage \<Rightarrow> int \<Rightarrow> obj list" where
  "listStudentsByCourse this courseId =
     filter (\<lambda>student. get_prop student ''courseId'' = JNum courseId) (Map_values (students this))"

subsection \<open>StudentGroup operations\<close>

definition getStudentGroup :: "MemStorage \<Rightarrow> int \<Rightarrow> obj option" where
  "getStudentGroup this id' = Map_get (studentGroups this) id'"

definition createStudentGroup :: "MemStorage \<Rightarrow> obj \<Rightarrow> obj \<times> MemStorage" where
  "createStudentGroup this group' =
     (let id' = nextIds this StudentGroups;
          this1 = this\<lparr>nextIds := (nextIds this)(StudentGroups := id' + 1)\<rparr>;
          newStudentGroup = with_id group' id';
          this2 = this1\<lparr>studentGroups := Map_set (studentGroups this1) id' newStudentGroup\<rparr>
      in (newStudentGroup, this2))"

definition updateStudentGroup :: "MemStorage \<Rightarrow> int \<Rightarrow> obj \<Rightarrow> obj option \<times> MemStorage" where
  "updateStudentGroup this id' group' =
     (case Map_get (studentGroups this) id' of
        None \<Rightarrow> (None, this)
      | Some existingStudentGroup \<Rightarrow>
          (let updatedStudentGroup = spread existingStudentGroup group';
               this1 = this\<lparr>studentGroups := Map_set (studentGroups this) id' updatedStudentGroup\<rparr>
           in (Some updatedStudentGroup, this1)))"

definition deleteStudentGroup :: "MemStorage \<Rightarrow> int \<Rightarrow> bool \<times> MemStorage" where
  "deleteStudentGroup this id' =
     (let (existed, m) = Map_delete (studentGroups this) id'
      in (existed, this\<lparr>studentGroups := m\<rparr>))"

definition listStudentGroups :: "MemStorage \<Rightarrow> obj list" where
  "listStudentGroups this = Map_values (studentGroups this)"

definition listStudentGroupsByCourse :: "MemStorage \<Rightarrow> int \<Rightarrow> obj list" where
  "listStudentGroupsByCourse this courseId =
     filter (\<lambda>group'. get_prop group' ''courseId'' = JNum courseId) (Map_values (studentGroups this))"

subsection \<open>Student Group Assignment operations\<close>

definition assignStudentToGroup :: "MemStorage \<Rightarrow> obj \<Rightarrow> obj \<times> MemStorage" where
  "assignStudentToGroup this assignment =
     (let id' = nextIds this StudentGroupAssignments;
          this1 = this\<lparr>nextIds := (nextIds this)(StudentGroupAssignments := id' + 1)\<rparr>;
          newAssignment = with_id assignment id';
          this2 = this1\<lparr>studentGroupAssignments :=
                    Map_set (studentGroupAssignments this1) id' newAssignment\<rparr>
      in (newAssignment, this2))"

definition removeStudentFromGroup :: "MemStorage \<Rightarrow> int \<Rightarrow> int \<Rightarrow> bool \<times> MemStorage" where
  "removeStudentFromGroup this studentId groupId =
     (case find (\<lambda>a. get_prop a ''studentId'' = JNum studentId \<and> get_prop a ''groupId'' = JNum groupId)
             (Map_values (studentGroupAssignments this)) of
        None \<Rightarrow> (False, this)
      | Some assignment \<Rightarrow>
          (let (existed, m) = Map_delete_val (studentGroupAssignments this) (get_prop assignment ''id'')
           in (existed, this\<lparr>studentGroupAssignments := m\<rparr>)))"

definition listStudentGroupAssignments :: "MemStorage \<Rightarrow> int \<Rightarrow> obj list" where
  "listStudentGroupAssignments this groupId =
     filter (\<lambda>assignment. get_prop assignment ''groupId'' = JNum groupId)
       (Map_values (studentGroupAssignments this))"

text \<open>\<^verbatim>\<open>studentIds.includes(student.id)\<close> is membership in the array.\<close>

definition listStudentsByGroup :: "MemStorage \<Rightarrow> int \<Rightarrow> obj list" where
  "listStudentsByGroup this groupId =
     (let assignments = listStudentGroupAssignments this groupId;
          studentIds = map (\<lambda>assignment. get_prop assignment ''studentId'') assignments
      in filter (\<lambda>student. get_prop student ''id'' \<in> set studentIds)
           (Map_values (students this)))"

subsection \<open>Session operations\<close>

definition getSession :: "MemStorage \<Rightarrow> int \<Rightarrow> obj option" where
  "getSession this id' = Map_get (sessions this) id'"

definition createSession :: "MemStorage \<Rightarrow> obj \<Rightarrow> obj \<times> MemStorage" where
  "createSession this session =
     (let id' = nextIds this Sessions;
          this1 = this\<lparr>nextIds := (nextIds this)(Sessions := id' + 1)\<rparr>;
          newSession = with_id session id';
          this2 = this1\<lparr>sessions := Map_set (sessions this1) id' newSession\<rparr>
      in (newSession, this2))"

definition updateSession :: "MemStorage \<Rightarrow> int \<Rightarrow> obj \<Rightarrow> obj option \<times> MemStorage" where
  "updateSession this id' session =
     (case Map_get (sessions this) id' of
        None \<Rightarrow> (None, this)
      | Some existingSession \<Rightarrow>
          (let updatedSession = spread existingSession session;
               this1 = this\<lparr>sessions := Map_set (sessions this) id' updatedSession\<rparr>
           in (Some updatedSession, this1)))"

definition deleteSession :: "MemStorage \<Rightarrow> int \<Rightarrow> bool \<times> MemStorage" where
  "deleteSession this id' =
     (let (existed, m) = Map_delete (sessions this) id'
      in (existed, this\<lparr>sessions := m\<rparr>))"

definition listSessions :: "MemStorage \<Rightarrow> obj list" where
  "listSessions this = Map_values (sessions this)"

definition listSessionsByTeacher :: "MemStorage \<Rightarrow> int \<Rightarrow> obj list" where
  "listSessionsByTeacher this teacherId =
     filter (\<lambda>session. get_prop session ''teacherId'' = JNum teacherId) (Map_values (sessions this))"

definition listSessionsByModuleElement :: "MemStorage \<Rightarrow> int \<Rightarrow> obj list" where
  "listSessionsByModuleElement this moduleElementId =
     filter (\<lambda>session. get_prop session ''moduleElementId'' = JNum moduleElementId) (Map_values (sessions this))"

subsection \<open>Absence operations\<close>

definition getAbsence :: "MemStorage \<Rightarrow> int \<Rightarrow> obj option" where
  "getAbsence this id' = Map_get (absences this) id'"

definition createAbsence :: "MemStorage \<Rightarrow> obj \<Rightarrow> obj \<times> MemStorage" where
  "createAbsence this absence =
     (let id' = nextIds this Absences;
          this1 = this\<lparr>nextIds := (nextIds this)(Absences := id' + 1)\<rparr>;
          newAbsence = with_id absence id';
          this2 = this1\<lparr>absences := Map_set (absences this1) id' newAbsence\<rparr>
      in (newAbsence, this2))"

definition updateAbsence :: "MemStorage \<Rightarrow> int \<Rightarrow> obj \<Rightarrow> obj option \<times> MemStorage" where
  "updateAbsence this id' absence =
     (case Map_get (absences this) id' of
        None \<Rightarrow> (None, this)
      | Some existingAbsence \<Rightarrow>
          (let updatedAbsence = spread existingAbsence absence;
               this1 = this\<lparr>absences := Map_set (absences this) id' updatedAbsence\<rparr>
           in (Some updatedAbsence, this1)))"

definition deleteAbsence :: "MemStorage \<Rightarrow> int \<Rightarrow> bool \<times> MemStorage" where
  "deleteAbsence this id' =
     (let (existed, m) = Map_delete (absences this) id'
      in (existed, this\<lparr>absences := m\<rparr>))"

definition listAbsences :: "MemStorage \<Rightarrow> obj list" where
  "listAbsences this = Map_values (absences this)"

definition listAbsencesBySession :: "MemStorage \<Rightarrow> int \<Rightarrow> obj list" where
  "listAbsencesBySession this sessionId =
     filter (\<lambda>absence. get_prop absence ''sessionId'' = JNum sessionId) (Map_values (absences this))"

definition listAbsencesByStudent :: "MemStorage \<Rightarrow> int \<Rightarrow> obj list" where
  "listAbsencesByStudent this studentId =
     filter (\<lambda>absence. get_prop absence ''studentId'' = JNum studentId) (Map_values (absences this))"

text \<open>The loop of \<^verbatim>\<open>batchCreateAbsences\<close>: one \<^verbatim>\<open>createAbsence\<close> per input, in order.\<close>

fun batchCreateAbsences_loop ::
    "MemStorage \<Rightarrow> obj list \<Rightarrow> obj list \<Rightarrow> obj list \<times> MemStorage" where
  "batchCreateAbsences_loop this createdAbsences [] = (createdAbsences, this)"
| "batchCreateAbsences_loop this createdAbsences (absence # rest) =
     (let (createdAbsence, this1) = createAbsence this absence
      in batchCreateAbsences_loop this1 (createdAbsences @ [createdAbsence]) rest)"

definition batchCreateAbsences :: "MemStorage \<Rightarrow> obj list \<Rightarrow> obj list \<times> MemStorage" where
  "batchCreateAbsences this absences' = batchCreateAbsences_loop this [] absences'"

subsection \<open>The constructor\<close>

text \<open>
  The constructor sets every map to an empty one and every counter to 1, and then calls
  \<^verbatim>\<open>createUser\<close> three times.
\<close>

definition fresh_fields :: MemStorage where
  "fresh_fields =
     \<lparr>users = [], departments = [], courses = [], modules = [], moduleElements = [],
      teacherModuleElements = [], students = [], studentGroups = [],
      studentGroupAssignments = [], sessions = [], absences = [],
      nextIds = (\<lambda>c. 1)\<rparr>"

definition seed_admin :: obj where
  "seed_admin =
     [''username'' \<mapsto> JStr ''admin'', ''password'' \<mapsto> JStr ''admin'',
      ''fullName'' \<mapsto> JStr ''Administrator'', ''email'' \<mapsto> JStr ''admin@example.com'',
      ''role'' \<mapsto> JStr ''admin'']"

definition seed_teacher :: obj where
  "seed_teacher =
     [''username'' \<mapsto> JStr ''teacher'', ''password'' \<mapsto> JStr ''teacher'',
      ''fullName'' \<mapsto> JStr ''Teacher'', ''email'' \<mapsto> JStr ''teacher@example.com'',
      ''role'' \<mapsto> JStr ''teacher'']"

definition seed_head :: obj where
  "seed_head =
     [''username'' \<mapsto> JStr ''head_d'', ''password'' \<mapsto> JStr ''head_d'',
      ''fullName'' \<mapsto> JStr ''Department Head'', ''email'' \<mapsto> JStr ''head_d@example.com'',
      ''role'' \<mapsto> JStr ''departmentHead'']"

definition new_MemStorage :: MemStorage where
  "new_MemStorage =
     (let this1 = snd (createUser fresh_fields seed_admin);
          this2 = snd (createUser this1 seed_teacher);
          this3 = snd (createUser this2 seed_head)
      in this3)"

section \<open>The methods, indexed by entity and collection\<close>

text \<open>
  The interface \<^verbatim>\<open>IStorage\<close> repeats the same five methods for nine entities, and has
  an assign/remove/list triple for the two join tables. The functions below select a
  method by the entity or collection it belongs to, so that a property of all of them
  is one statement.
\<close>

datatype entity =
    EUser | EDepartment | ECourse | EModule | EModuleElement | EStudent | EStudentGroup
  | ESession | EAbsence

fun coll_of :: "entity \<Rightarrow> coll" where
  "coll_of EUser = Users"
| "coll_of EDepartment = Departments"
| "coll_of ECourse = Courses"
| "coll_of EModule = Modules"
| "coll_of EModuleElement = ModuleElements"
| "coll_of EStudent = Students"
| "coll_of EStudentGroup = StudentGroups"
| "coll_of ESession = Sessions"
| "coll_of EAbsence = Absences"

fun table :: "coll \<Rightarrow> MemStorage \<Rightarrow> (int, obj) jsmap" where
  "table Users this = users this"
| "table Departments this = departments this"
| "table Courses this = courses this"
| "table Modules this = modules this"
| "table ModuleElements this = moduleElements this"
| "table TeacherModuleElements this = teacherModuleElements this"
| "table Students this = students this"
| "table StudentGroups this = studentGroups this"
| "table StudentGroupAssignments this = studentGroupAssignments this"
| "table Sessions this = sessions this"
| "table Absences this = absences this"

fun get_in :: "entity \<Rightarrow> MemStorage \<Rightarrow> int \<Rightarrow> obj option" where
  "get_in EUser = getUser"
| "get_in EDepartment = getDepartment"
| "get_in ECourse = getCourse"
| "get_in EModule = getModule"
| "get_in EModuleElement = getModuleElement"
| "get_in EStudent = getStudent"
| "get_in EStudentGroup = getStudentGroup"
| "get_in ESession = getSession"
| "get_in EAbsence = getAbsence"

fun create_in :: "coll \<Rightarrow> MemStorage \<Rightarrow> obj \<Rightarrow> obj \<times> MemStorage" where
  "create_in Users = createUser"
| "create_in Departments = createDepartment"
| "create_in Courses = createCourse"
| "create_in Modules = createModule"
| "create_in ModuleElements = createModuleElement"
| "create_in TeacherModuleElements = assignTeacherToModuleElement"
| "create_in Students = createStudent"
| "create_in StudentGroups = createStudentGroup"
| "create_in StudentGroupAssignments = assignStudentToGroup"
| "create_in Sessions = createSession"
| "create_in Absences = createAbsence"

fun update_in :: "entity \<Rightarrow> MemStorage \<Rightarrow> int \<Rightarrow> obj \<Rightarrow> obj option \<times> MemStorage" where
  "update_in EUser = updateUser"
| "update_in EDepartment = updateDepartment"
| "update_in ECourse = updateCourse"
| "update_in EModule = updateModule"
| "update_in EModuleElement = updateModuleElement"
| "update_in EStudent = updateStudent"
| "update_in EStudentGroup = updateStudentGroup"
| "update_in ESession = updateSession"
| "update_in EAbsence = updateAbsence"

fun delete_in :: "entity \<Rightarrow> MemStorage \<Rightarrow> int \<Rightarrow> bool \<times> MemStorage" where
  "delete_in EUser = deleteUser"
| "delete_in EDepartment = deleteDepartment"
| "delete_in ECourse = deleteCourse"
| "delete_in EModule = deleteModule"
| "delete_in EModuleElement = deleteModuleElement"
| "delete_in EStudent = deleteStudent"
| "delete_in EStudentGroup = deleteStudentGroup"
| "delete_in ESession = deleteSession"
| "delete_in EAbsence = deleteAbsence"

fun list_in :: "entity \<Rightarrow> MemStorage \<Rightarrow> obj list" where
  "list_in EUser = listUsers"
| "list_in EDepartment = listDepartments"
| "list_in ECourse = listCourses"
| "list_in EModule = listModules"
| "list_in EModuleElement = listModuleElements"
| "list_in EStudent = listStudents"
| "list_in EStudentGroup = listStudentGroups"
| "list_in ESession = listSessions"
| "list_in EAbsence = listAbsences"

section \<open>Histories of calls\<close>

text \<open>
  A call that changes the store. A history is a list of calls, run one after the other
  from a given store; the calls of the callers of the store are serialized by the single
  thread.
\<close>

datatype call =
    Create coll obj
  | Update entity int obj
  | Delete entity int
  | RemoveTeacherFromModuleElement int int
  | RemoveStudentFromGroup int int
  | BatchCreateAbsences "obj list"

fun perform :: "MemStorage \<Rightarrow> call \<Rightarrow> MemStorage" where
  "perform this (Create c data) = snd (create_in c this data)"
| "perform this (Update e id' data) = snd (update_in e this id' data)"
| "perform this (Delete e id') = snd (delete_in e this id')"
| "perform this (RemoveTeacherFromModuleElement teacherId moduleElementId) =
     snd (removeTeacherFromModuleElement this teacherId moduleElementId)"
| "perform this (RemoveStudentFromGroup studentId groupId) =
     snd (removeStudentFromGroup this studentId groupId)"
| "perform this (BatchCreateAbsences absences') = snd (batchCreateAbsences this absences')"

text \<open>The records that a call creates in a collection, as the call returns them.\<close>

fun created :: "coll \<Rightarrow> MemStorage \<Rightarrow> call \<Rightarrow> obj list" where
  "created c this (Create c' data) = (if c' = c then [fst (create_in c' this data)] else [])"
| "created c this (BatchCreateAbsences absences') =
     (if c = Absences then fst (batchCreateAbsences this absences') else [])"
| "created c this _ = []"

text \<open>The number of records that a call asks to create in a collection.\<close>

fun creations :: "coll \<Rightarrow> call \<Rightarrow> nat" where
  "creations c (Create c' data) = (if c' = c then 1 else 0)"
| "creations c (BatchCreateAbsences absences') = (if c = Absences then length absences' else 0)"
| "creations c _ = 0"

fun run :: "MemStorage \<Rightarrow> call list \<Rightarrow> MemStorage" where
  "run this [] = this"
| "run this (x # xs) = run (perform this x) xs"

fun created_by :: "coll \<Rightarrow> MemStorage \<Rightarrow> call list \<Rightarrow> obj list" where
  "created_by c this [] = []"
| "created_by c this (x # xs) = created c this x @ created_by c (perform this x) xs"

text \<open>The three calls of the constructor, after it has set the fields.\<close>

definition constructor_calls :: "call list" where
  "constructor_calls = [Create Users seed_admin, Create Users seed_teacher, Create Users seed_head]"

section \<open>The route \<^verbatim>\<open>GET /api/statistics/top-absentees\<close>\<close>

text \<open>
  \<^verbatim>\<open>req.query.limit ? parseInt(req.query.limit, 10) : 5\<close>. The query either has no
  \<^verbatim>\<open>limit\<close> (or an empty one), or has one in which \<^verbatim>\<open>parseInt\<close> finds no integer and
  answers \<^verbatim>\<open>NaN\<close>, or has one in which it finds an integer. \<^verbatim>\<open>NaN\<close> is \<open>None\<close>.
\<close>

datatype limit_query = NoLimit | LimitNaN | Limit int

fun limit_of :: "limit_query \<Rightarrow> int option" where
  "limit_of NoLimit = Some 5"
| "limit_of LimitNaN = None"
| "limit_of (Limit n) = Some n"

text \<open>
  \<^verbatim>\<open>xs.slice(0, end)\<close>: a negative \<open>end\<close> counts from the end of the array, \<^verbatim>\<open>NaN\<close> is 0.
\<close>

definition slice_from_0 :: "'a list \<Rightarrow> int option \<Rightarrow> 'a list" where
  "slice_from_0 xs end' =
     (case end' of
        None \<Rightarrow> []
      | Some n \<Rightarrow> if n < 0 then take (nat (int (length xs) + n)) xs else take (nat n) xs)"

text \<open>The string that a template literal makes of a value.\<close>

fun digits :: "nat \<Rightarrow> string" where
  "digits n =
     (if n < 10 then [char_of (48 + n)] else digits (n div 10) @ [char_of (48 + n mod 10)])"

fun ToString :: "jsval \<Rightarrow> string" where
  "ToString JUndefined = ''undefined''"
| "ToString JNull = ''null''"
| "ToString (JNum n) = (if n < 0 then ''-'' @ digits (nat (- n)) else digits (nat n))"
| "ToString (JStr s) = s"

text \<open>
  The loop that counts the absences by student: \<^verbatim>\<open>get(k) || 0\<close> is the count held for
  \<open>k\<close>, and 0 when there is none (or when it is 0).
\<close>

fun absencesByStudent_loop :: "(jsval, int) jsmap \<Rightarrow> obj list \<Rightarrow> (jsval, int) jsmap" where
  "absencesByStudent_loop absencesByStudent [] = absencesByStudent"
| "absencesByStudent_loop absencesByStudent (absence # rest) =
     (if get_prop absence ''status'' = JStr ''absent''
      then (let count' = (case Map_get absencesByStudent (get_prop absence ''studentId'') of
                            None \<Rightarrow> 0
                          | Some c \<Rightarrow> if c \<noteq> 0 then c else 0)
            in absencesByStudent_loop
                 (Map_set absencesByStudent (get_prop absence ''studentId'') (count' + 1)) rest)
      else absencesByStudent_loop absencesByStudent rest)"

record topAbsentee =
  studentId :: jsval
  studentName :: string
  absenceCount :: int

definition topAbsentee_of :: "obj list \<Rightarrow> jsval \<times> int \<Rightarrow> topAbsentee" where
  "topAbsentee_of students' entry =
     (case entry of (sid, count') \<Rightarrow>
        (let student = find (\<lambda>s. get_prop s ''id'' = sid) students'
         in \<lparr>studentId = sid,
             studentName =
               (case student of
                  Some st \<Rightarrow>
                    ToString (get_prop st ''firstName'') @ '' '' @ ToString (get_prop st ''lastName'')
                | None \<Rightarrow> ''Unknown''),
             absenceCount = count'\<rparr>))"

text \<open>
  \<^verbatim>\<open>sort((a, b) => b.absenceCount - a.absenceCount)\<close>: \<^verbatim>\<open>Array.prototype.sort\<close> is stable,
  so the result is the stable sort by decreasing count, which \<^const>\<open>sort_key\<close> on the
  negated count computes. Nothing in the handler raises, so its \<^verbatim>\<open>catch\<close> (the status
  500) is never reached and the handler is the function of the store and the query
  below.
\<close>

definition top_absentees :: "MemStorage \<Rightarrow> limit_query \<Rightarrow> topAbsentee list" where
  "top_absentees storage q =
     (let limit = limit_of q;
          absences' = listAbsences storage;
          students' = listStudents storage;
          absencesByStudent = absencesByStudent_loop [] absences';
          topAbsentees =
            slice_from_0
              (sort_key (\<lambda>e. - absenceCount e)
                 (map (topAbsentee_of students') (Map_entries absencesByStudent)))
              limit
      in topAbsentees)"

section \<open>The threshold report of the page \<^verbatim>\<open>AbsenceReports\<close>\<close>

text \<open>
  The page declares the shape of what it fetches as interfaces of its own, with typed
  fields; they are records here. The fields carry the initial of their record, since the
  three interfaces share field names. An optional field is an \<open>option\<close>. The arrays that
  the queries deliver are \<^verbatim>\<open>undefined\<close> (\<open>None\<close>) until they are loaded.
\<close>

record Course =
  c_id :: int
  c_name :: string
  c_code :: string
  c_departmentId :: int
  c_absenceThreshold :: "int option"

record Student =
  s_id :: int
  s_studentId :: string
  s_firstName :: string
  s_lastName :: string
  s_email :: string
  s_courseId :: int

record Absence =
  a_id :: int
  a_sessionId :: int
  a_studentId :: int
  a_status :: string
  a_notes :: "string option"

definition ABSENCE_STATUSES_ABSENT :: string where
  "ABSENCE_STATUSES_ABSENT = ''absent''"

text \<open>\<^verbatim>\<open>a || b\<close> on numbers: \<open>a\<close> unless it is 0.\<close>

definition or_else :: "int \<Rightarrow> int \<Rightarrow> int" where
  "or_else a b = (if a \<noteq> 0 then a else b)"

definition getStudentAbsences :: "Absence list option \<Rightarrow> int \<Rightarrow> int" where
  "getStudentAbsences absences' sid =
     (case absences' of
        None \<Rightarrow> 0
      | Some as \<Rightarrow>
          or_else
            (int (length (filter (\<lambda>absence. a_studentId absence = sid
                                   \<and> a_status absence = ABSENCE_STATUSES_ABSENT) as)))
            0)"

text \<open>
  The callback of \<^verbatim>\<open>courses?.map\<close>: \<^verbatim>\<open>null\<close> for a course whose threshold is falsy
  (\<^verbatim>\<open>undefined\<close> or 0), and otherwise the card of the course, which lists
  \<^verbatim>\<open>studentsExceedingThreshold\<close>.
\<close>

definition threshold_card ::
    "Student list option \<Rightarrow> Absence list option \<Rightarrow> Course \<Rightarrow> Student list option" where
  "threshold_card students' absences' course =
     (case c_absenceThreshold course of
        None \<Rightarrow> None
      | Some threshold \<Rightarrow>
          if threshold = 0 then None
          else
            (let courseStudents =
                   (case students' of
                      None \<Rightarrow> []
                    | Some ss \<Rightarrow> filter (\<lambda>s. s_courseId s = c_id course) ss);
                 studentsExceedingThreshold =
                   filter (\<lambda>student.
                       getStudentAbsences absences' (s_id student) > or_else threshold 3)
                     courseStudents
             in Some studentsExceedingThreshold))"

definition threshold_report ::
    "Course list option \<Rightarrow> Student list option \<Rightarrow> Absence list option
       \<Rightarrow> (Course \<times> Student list option) list option" where
  "threshold_report courses' students' absences' =
     (case courses' of
        None \<Rightarrow> None
      | Some cs \<Rightarrow> Some (map (\<lambda>course. (course, threshold_card students' absences' course)) cs))"

text \<open>A student is flagged for a course when the card of the course lists the student.\<close>

definition flagged ::
    "Student list option \<Rightarrow> Absence list option \<Rightarrow> Course \<Rightarrow> Student \<Rightarrow> bool" where
  "flagged students' absences' course student =
     (case threshold_card students' absences' course of
        None \<Rightarrow> False
      | Some studentsExceedingThreshold \<Rightarrow> student \<in> set studentsExceedingThreshold)"

section \<open>Notions used to state the properties\<close>

text \<open>
  A table is well kept when no key occurs twice in it and every key is below the counter
  of its collection; it is keyed when every record carries its key as its \<open>id\<close>.
\<close>

definition keys_fresh :: "(int, 'v) jsmap \<Rightarrow> int \<Rightarrow> bool" where
  "keys_fresh m n = (distinct (map fst m) \<and> list_all (\<lambda>k. k < n) (map fst m))"

definition keyed :: "(int, obj) jsmap \<Rightarrow> bool" where
  "keyed m = list_all (\<lambda>e. get_prop (snd e) ''id'' = JNum (fst e)) m"

text \<open>
  A call is typed when it respects \<^verbatim>\<open>Partial<InsertT>\<close>, the type of the payload of an
  update: an insert shape has no \<open>id\<close>.
\<close>

fun typed :: "call \<Rightarrow> bool" where
  "typed (Update e id' data) = (data ''id'' = None)"
| "typed _ = True"

text \<open>
  The join as the specification words it: the students, in the order of the student
  list, whose id is the \<open>studentId\<close> of some assignment row of the group.
\<close>

definition studentsInGroup :: "obj list \<Rightarrow> obj list \<Rightarrow> int \<Rightarrow> obj list" where
  "studentsInGroup assignments students' groupId =
     filter (\<lambda>student. \<exists>a \<in> set assignments.
                get_prop a ''groupId'' = JNum groupId
              \<and> get_prop a ''studentId'' = get_prop student ''id'')
       students'"

text \<open>The number of rows with the status \<open>absent\<close> that a list of absences has for a student.\<close>

definition absent_rows :: "obj list \<Rightarrow> jsval \<Rightarrow> int" where
  "absent_rows absences' sid =
     int (length (filter (\<lambda>a. get_prop a ''status'' = JStr ''absent''
                             \<and> get_prop a ''studentId'' = sid) absences'))"

text \<open>The same count on the absences that the page has fetched.\<close>

definition absent_count :: "Absence list \<Rightarrow> int \<Rightarrow> int" where
  "absent_count as sid =
     int (length (filter (\<lambda>a. a_studentId a = sid \<and> a_status a = ''absent'') as))"

text \<open>
  The count that a table of the route holds for a student, 0 when it holds none, and the
  list of the route before it is cut to the limit.
\<close>

definition held :: "(jsval, int) jsmap \<Rightarrow> jsval \<Rightarrow> int" where
  "held m k = (case map_of m k of None \<Rightarrow> 0 | Some c \<Rightarrow> c)"

definition ranking :: "MemStorage \<Rightarrow> topAbsentee list" where
  "ranking storage =
     sort_key (\<lambda>e. - absenceCount e)
       (map (topAbsentee_of (listStudents storage))
          (Map_entries (absencesByStudent_loop [] (listAbsences storage))))"

abbreviation pair_of :: "topAbsentee \<Rightarrow> jsval \<times> int" where
  "pair_of e \<equiv> (studentId e, absenceCount e)"

section \<open>Example data\<close>

definition applicant1 :: obj where
  "applicant1 =
     [''username'' \<mapsto> JStr ''sam'', ''email'' \<mapsto> JStr ''sam@example.com'',
      ''fullName'' \<mapsto> JStr ''Sam One'']"

definition applicant2 :: obj where
  "applicant2 =
     [''username'' \<mapsto> JStr ''sam'', ''email'' \<mapsto> JStr ''sam@example.com'',
      ''fullName'' \<mapsto> JStr ''Sam Two'']"

definition student_data :: "string \<Rightarrow> obj" where
  "student_data code =
     [''studentId'' \<mapsto> JStr code, ''firstName'' \<mapsto> JStr ''Ada'', ''lastName'' \<mapsto> JStr code,
      ''courseId'' \<mapsto> JNum 1]"

definition assignment_data :: "int \<Rightarrow> int \<Rightarrow> obj" where
  "assignment_data sid gid = [''studentId'' \<mapsto> JNum sid, ''groupId'' \<mapsto> JNum gid]"

definition absence_data :: "int \<Rightarrow> int \<Rightarrow> string \<Rightarrow> obj" where
  "absence_data session sid status =
     [''sessionId'' \<mapsto> JNum session, ''studentId'' \<mapsto> JNum sid, ''status'' \<mapsto> JStr status]"

text \<open>
  A store with five students and a group to which the students 5, 1 and 3 are assigned,
  in this order.
\<close>

definition demo_calls :: "call list" where
  "demo_calls =
     [Create Students (student_data ''S1''), Create Students (student_data ''S2''),
      Create Students (student_data ''S3''), Create Students (student_data ''S4''),
      Create Students (student_data ''S5''),
      Create StudentGroupAssignments (assignment_data 5 1),
      Create StudentGroupAssignments (assignment_data 1 1),
      Create StudentGroupAssignments (assignment_data 3 1)]"

definition demo_store :: MemStorage where
  "demo_store = run new_MemStorage demo_calls"

text \<open>
  The store above after a batch of thirteen absences: three for student 1, five for
  student 3 and five for student 2, session by session.
\<close>

definition absence_rows_3_5_5 :: "obj list" where
  "absence_rows_3_5_5 =
     [absence_data 1 1 ''absent'', absence_data 1 3 ''absent'', absence_data 1 2 ''absent'',
      absence_data 2 1 ''absent'', absence_data 2 3 ''absent'', absence_data 2 2 ''absent'',
      absence_data 3 1 ''absent'', absence_data 3 3 ''absent'', absence_data 3 2 ''absent'',
      absence_data 4 3 ''absent'', absence_data 4 2 ''absent'',
      absence_data 5 3 ''absent'', absence_data 5 2 ''absent'']"

definition absent_store :: MemStorage where
  "absent_store = run demo_store [BatchCreateAbsences absence_rows_3_5_5]"

text \<open>
  What the page may have fetched: a course (with the threshold 0, unset, or 3), two of
  its students, absences.
\<close>

definition course0 :: Course where
  "course0 = \<lparr>c_id = 1, c_name = ''Informatique'', c_code = ''INF'', c_departmentId = 1,
               c_absenceThreshold = Some 0\<rparr>"

definition course_unset :: Course where
  "course_unset = \<lparr>c_id = 1, c_name = ''Informatique'', c_code = ''INF'', c_departmentId = 1,
                   c_absenceThreshold = None\<rparr>"

definition course3 :: Course where
  "course3 = \<lparr>c_id = 1, c_name = ''Informatique'', c_code = ''INF'', c_departmentId = 1,
               c_absenceThreshold = Some 3\<rparr>"

definition studentA :: Student where
  "studentA = \<lparr>s_id = 1, s_studentId = ''E001'', s_firstName = ''Ada'', s_lastName = ''A'',
                s_email = ''a@example.com'', s_courseId = 1\<rparr>"

definition studentB :: Student where
  "studentB = \<lparr>s_id = 2, s_studentId = ''E002'', s_firstName = ''Bob'', s_lastName = ''B'',
                s_email = ''b@example.com'', s_courseId = 1\<rparr>"

definition absence_at :: "int \<Rightarrow> int \<Rightarrow> string \<Rightarrow> Absence" where
  "absence_at k sid status =
     \<lparr>a_id = k, a_sessionId = k, a_studentId = sid, a_status = status, a_notes = None\<rparr>"

text \<open>
  Four absences of the first student and three of the second, who also has two justified
  ones.
\<close>

definition absences_A4_B3 :: "Absence list" where
  "absences_A4_B3 =
     [absence_at 1 1 ''absent'', absence_at 1 2 ''absent'', absence_at 2 1 ''absent'',
      absence_at 2 2 ''justified'', absence_at 3 1 ''absent'', absence_at 3 2 ''absent'',
      absence_at 4 1 ''absent'', absence_at 4 2 ''absent'', absence_at 5 2 ''justified'']"

section \<open>Facts about the \<^verbatim>\<open>Map\<close>\<close>

lemma map_of_Map_set: "map_of (Map_set m k v) = (map_of m)(k \<mapsto> v)"
  by (induction m k v rule: Map_set.induct) auto

lemma keys_Map_set:
  "map fst (Map_set m k v) = (if k \<in> set (map fst m) then map fst m else map fst m @ [k])"
  by (induction m k v rule: Map_set.induct) auto

lemma Map_set_fresh: "k \<notin> set (map fst m) \<Longrightarrow> Map_set m k v = m @ [(k, v)]"
  by (induction m k v rule: Map_set.induct) auto

lemma filter_absent_key: "k \<notin> set (map fst m) \<Longrightarrow> filter (\<lambda>e. fst e \<noteq> k) m = m"
  by (induction m) auto

lemma Map_get_None: "Map_get m k = None \<longleftrightarrow> k \<notin> set (map fst m)"
  by (simp add: Map_get_def map_of_eq_None_iff)

lemma Map_get_Map_set: "Map_get (Map_set m k v) k' = (if k' = k then Some v else Map_get m k')"
  by (simp add: Map_get_def map_of_Map_set)

lemma Map_get_filter: "Map_get (filter (\<lambda>e. fst e \<noteq> k) m) k' = (if k' = k then None else Map_get m k')"
  by (induction m) (auto simp: Map_get_def)

lemma Map_values_member: "Map_get m k = Some v \<Longrightarrow> v \<in> set (Map_values m)"
  by (auto simp: Map_get_def Map_values_def dest!: map_of_SomeD intro: rev_image_eqI)

lemma keys_fresh_notin: "keys_fresh m n \<Longrightarrow> n \<notin> set (map fst m)"
  by (auto simp: keys_fresh_def list_all_iff)

lemma keys_fresh_snoc: "keys_fresh m n \<Longrightarrow> keys_fresh (m @ [(n, v)]) (n + 1)"
  by (auto simp: keys_fresh_def list_all_iff)

lemma keys_fresh_filter: "keys_fresh m n \<Longrightarrow> keys_fresh (filter P m) n"
  by (auto simp: keys_fresh_def list_all_iff distinct_map_filter)

lemma keys_fresh_Map_set_fresh: "keys_fresh m n \<Longrightarrow> keys_fresh (Map_set m n v) (n + 1)"
  using keys_fresh_notin[of m n] by (simp add: Map_set_fresh keys_fresh_snoc)

lemma keys_fresh_Map_set_held:
  "keys_fresh m n \<Longrightarrow> Map_get m k = Some v' \<Longrightarrow> keys_fresh (Map_set m k v) n"
  using Map_get_None[of m k] by (simp add: keys_fresh_def keys_Map_set)

lemma keyed_filter: "keyed m \<Longrightarrow> keyed (filter P m)"
  by (auto simp: keyed_def list_all_iff)

lemma keyed_Map_set: "keyed m \<Longrightarrow> get_prop v ''id'' = JNum k \<Longrightarrow> keyed (Map_set m k v)"
  by (induction m k v rule: Map_set.induct) (auto simp: keyed_def)

lemma keyed_Map_get: "keyed m \<Longrightarrow> Map_get m k = Some v \<Longrightarrow> get_prop v ''id'' = JNum k"
  by (auto simp: keyed_def list_all_iff Map_get_def dest!: map_of_SomeD)

lemma snd_Map_delete_val: "snd (Map_delete_val m v) = filter (\<lambda>e. JNum (fst e) \<noteq> v) m"
  by (cases v) (auto simp: Map_delete_val_def Map_delete_def intro: filter_cong)

section \<open>Facts about the methods\<close>

lemmas get_defs = getUser_def getDepartment_def getCourse_def getModule_def getModuleElement_def
  getStudent_def getStudentGroup_def getSession_def getAbsence_def

lemmas create_defs = createUser_def createDepartment_def createCourse_def createModule_def
  createModuleElement_def assignTeacherToModuleElement_def createStudent_def
  createStudentGroup_def assignStudentToGroup_def createSession_def createAbsence_def

lemmas update_defs = updateUser_def updateDepartment_def updateCourse_def updateModule_def
  updateModuleElement_def updateStudent_def updateStudentGroup_def updateSession_def updateAbsence_def

lemmas delete_defs = deleteUser_def deleteDepartment_def deleteCourse_def deleteModule_def
  deleteModuleElement_def deleteStudent_def deleteStudentGroup_def deleteSession_def deleteAbsence_def

lemmas list_defs = listUsers_def listDepartments_def listCourses_def listModules_def
  listModuleElements_def listStudents_def listStudentGroups_def listSessions_def listAbsences_def

lemma fst_create_in: "fst (create_in c this d) = with_id d (nextIds this c)"
  by (cases c) (simp_all add: create_defs Let_def)

lemma nextIds_create_in:
  "nextIds (snd (create_in c this d)) = (nextIds this)(c := nextIds this c + 1)"
  by (cases c) (simp_all add: create_defs Let_def)

lemma table_create_in:
  "table c' (snd (create_in c this d)) =
     (if c' = c then Map_set (table c this) (nextIds this c) (with_id d (nextIds this c))
      else table c' this)"
  by (cases c; cases c') (simp_all add: create_defs Let_def)

lemma nextIds_update_in: "nextIds (snd (update_in e this i p)) = nextIds this"
  by (cases e) (simp_all add: update_defs Let_def split: option.splits)

lemma table_update_in:
  "table c (snd (update_in e this i p)) =
     (case Map_get (table (coll_of e) this) i of
        None \<Rightarrow> table c this
      | Some existing \<Rightarrow>
          if c = coll_of e then Map_set (table c this) i (spread existing p) else table c this)"
  by (cases e; cases c) (simp_all add: update_defs Let_def split: option.splits)

lemma nextIds_delete_in: "nextIds (snd (delete_in e this i)) = nextIds this"
  by (cases e) (simp_all add: delete_defs Map_delete_def)

lemma table_delete_in:
  "table c (snd (delete_in e this i)) =
     (if c = coll_of e then filter (\<lambda>r. fst r \<noteq> i) (table c this) else table c this)"
  by (cases e; cases c) (simp_all add: delete_defs Map_delete_def)

lemma nextIds_removeTeacher:
  "nextIds (snd (removeTeacherFromModuleElement this t m)) = nextIds this"
  by (simp add: removeTeacherFromModuleElement_def Map_delete_val_def Map_delete_def
      split: option.splits jsval.splits)

lemma nextIds_removeStudent:
  "nextIds (snd (removeStudentFromGroup this s g)) = nextIds this"
  by (simp add: removeStudentFromGroup_def Map_delete_val_def Map_delete_def
      split: option.splits jsval.splits)

lemma table_removeTeacher:
  "\<exists>P. table c (snd (removeTeacherFromModuleElement this t m)) = filter P (table c this)"
proof (cases "c = TeacherModuleElements")
  case True
  show ?thesis
  proof (cases "find (\<lambda>a. get_prop a ''teacherId'' = JNum t \<and> get_prop a ''moduleElementId'' = JNum m)
             (Map_values (teacherModuleElements this))")
    case None
    then have "table c (snd (removeTeacherFromModuleElement this t m)) = filter (\<lambda>_. True) (table c this)"
      by (simp add: removeTeacherFromModuleElement_def)
    then show ?thesis by blast
  next
    case (Some a)
    then have "table c (snd (removeTeacherFromModuleElement this t m)) =
        filter (\<lambda>e. JNum (fst e) \<noteq> get_prop a ''id'') (table c this)"
      using True by (simp add: removeTeacherFromModuleElement_def split_beta snd_Map_delete_val)
    then show ?thesis by blast
  qed
next
  case False
  then have "table c (snd (removeTeacherFromModuleElement this t m)) = filter (\<lambda>_. True) (table c this)"
    by (cases c) (simp_all add: removeTeacherFromModuleElement_def split_beta split: option.splits)
  then show ?thesis by blast
qed

lemma table_removeStudent:
  "\<exists>P. table c (snd (removeStudentFromGroup this s g)) = filter P (table c this)"
proof (cases "c = StudentGroupAssignments")
  case True
  show ?thesis
  proof (cases "find (\<lambda>a. get_prop a ''studentId'' = JNum s \<and> get_prop a ''groupId'' = JNum g)
             (Map_values (studentGroupAssignments this))")
    case None
    then have "table c (snd (removeStudentFromGroup this s g)) = filter (\<lambda>_. True) (table c this)"
      by (simp add: removeStudentFromGroup_def)
    then show ?thesis by blast
  next
    case (Some a)
    then have "table c (snd (removeStudentFromGroup this s g)) =
        filter (\<lambda>e. JNum (fst e) \<noteq> get_prop a ''id'') (table c this)"
      using True by (simp add: removeStudentFromGroup_def split_beta snd_Map_delete_val)
    then show ?thesis by blast
  qed
next
  case False
  then have "table c (snd (removeStudentFromGroup this s g)) = filter (\<lambda>_. True) (table c this)"
    by (cases c) (simp_all add: removeStudentFromGroup_def split_beta split: option.splits)
  then show ?thesis by blast
qed

lemma get_in_table: "get_in e this i = Map_get (table (coll_of e) this) i"
  by (cases e) (simp_all add: get_defs)

lemma list_in_table: "list_in e this = Map_values (table (coll_of e) this)"
  by (cases e) (simp_all add: list_defs)

lemma fst_update_in:
  "fst (update_in e this i p) = map_option (\<lambda>existing. spread existing p) (get_in e this i)"
  by (cases e) (simp_all add: update_defs get_defs Let_def split: option.splits)

lemma update_in_absent: "get_in e this i = None \<Longrightarrow> update_in e this i p = (None, this)"
  by (cases e) (simp_all add: update_defs get_defs)

lemma fst_delete_in: "fst (delete_in e this i) = Map_has (table (coll_of e) this) i"
  by (cases e) (simp_all add: delete_defs Map_delete_def)

lemma delete_in_absent: "get_in e this i = None \<Longrightarrow> delete_in e this i = (False, this)"
  by (cases e) (simp_all add: get_defs delete_defs Map_delete_def Map_has_def Map_get_None filter_absent_key)

lemma delete_in_again: "fst (delete_in e (snd (delete_in e this j)) j) = False"
  by (auto simp add: fst_delete_in table_delete_in Map_has_def)

lemma id_with_id: "get_prop (with_id d n) ''id'' = JNum n"
  by (simp add: get_prop_def with_id_def)

lemma with_id_differs: "k \<noteq> k' \<Longrightarrow> with_id d k \<noteq> with_id d' k'"
  by (auto simp: with_id_def dest: fun_cong[where x = "''id''"])

subsection \<open>The batch is a sequence of creations\<close>

lemma batch_loop:
  "batchCreateAbsences_loop this acc xs =
     (acc @ map2 with_id xs [nextIds this Absences .. nextIds this Absences + int (length xs) - 1],
      snd (batchCreateAbsences_loop this acc xs))"
proof (induction xs arbitrary: this acc)
  case Nil
  then show ?case by simp
next
  case (Cons x xs)
  let ?n = "nextIds this Absences"
  have up: "[?n .. ?n + int (length (x # xs)) - 1] = ?n # [?n + 1 .. ?n + 1 + int (length xs) - 1]"
    by (simp add: upto_rec1)
  have st: "createAbsence this x = (with_id x ?n, snd (createAbsence this x))"
    by (simp add: createAbsence_def Let_def)
  have n': "nextIds (snd (createAbsence this x)) Absences = ?n + 1"
    by (simp add: createAbsence_def Let_def)
  show ?case
    apply (subst batchCreateAbsences_loop.simps)
    apply (subst st)
    apply (simp only: prod.case Let_def)
    apply (subst Cons.IH)
    apply (simp only: n' up)
    apply simp
    apply (subst (2) st)
    apply simp
    done
qed

lemma snd_batch_loop:
  "snd (batchCreateAbsences_loop this acc xs) = fold (\<lambda>a s. snd (createAbsence s a)) xs this"
  by (induction xs arbitrary: this acc) (simp_all add: split_beta Let_def)

lemma batch_as_creates:
  "snd (batchCreateAbsences this xs) = run this (map (Create Absences) xs)"
  unfolding batchCreateAbsences_def snd_batch_loop
  by (induction xs arbitrary: this) simp_all

lemma nextIds_fold_createAbsence:
  "nextIds (fold (\<lambda>a s. snd (createAbsence s a)) xs this) =
     (nextIds this)(Absences := nextIds this Absences + int (length xs))"
proof (induction xs arbitrary: this)
  case Nil
  then show ?case by simp
next
  case (Cons x xs)
  have "nextIds (snd (createAbsence this x)) = (nextIds this)(Absences := nextIds this Absences + 1)"
    by (simp add: createAbsence_def Let_def)
  then show ?case by (simp add: Cons.IH fun_eq_iff)
qed

lemma ids_map2_with_id:
  "length xs = length ns \<Longrightarrow> map (\<lambda>r. get_prop r ''id'') (map2 with_id xs ns) = map JNum ns"
  by (induction xs ns rule: list_induct2) (simp_all add: id_with_id)

lemma length_upto_nat: "length [n .. n + int k - 1] = k"
  by simp

lemma absences_createAbsence:
  "keys_fresh (absences this) (nextIds this Absences) \<Longrightarrow>
     absences (snd (createAbsence this x)) =
       absences this @ [(nextIds this Absences, with_id x (nextIds this Absences))]"
  using keys_fresh_notin[of "absences this" "nextIds this Absences"]
  by (simp add: createAbsence_def Let_def Map_set_fresh)

lemma absences_fold_createAbsence:
  "keys_fresh (absences this) (nextIds this Absences) \<Longrightarrow>
     absences (fold (\<lambda>a s. snd (createAbsence s a)) xs this) =
       absences this @
         zip [nextIds this Absences .. nextIds this Absences + int (length xs) - 1]
           (map2 with_id xs [nextIds this Absences .. nextIds this Absences + int (length xs) - 1])"
proof (induction xs arbitrary: this)
  case Nil
  then show ?case by simp
next
  case (Cons x xs)
  let ?n = "nextIds this Absences"
  let ?this1 = "snd (createAbsence this x)"
  have n1: "nextIds ?this1 Absences = ?n + 1"
    by (simp add: createAbsence_def Let_def)
  have a1: "absences ?this1 = absences this @ [(?n, with_id x ?n)]"
    using Cons.prems by (rule absences_createAbsence)
  have "keys_fresh (absences ?this1) (nextIds ?this1 Absences)"
    using Cons.prems by (simp add: a1 n1 keys_fresh_snoc)
  from Cons.IH[OF this] have
    "absences (fold (\<lambda>a s. snd (createAbsence s a)) xs ?this1) =
       (absences this @ [(?n, with_id x ?n)]) @
         zip [?n + 1 .. ?n + 1 + int (length xs) - 1]
           (map2 with_id xs [?n + 1 .. ?n + 1 + int (length xs) - 1])"
    by (simp only: a1 n1)
  moreover have "[?n .. ?n + int (length (x # xs)) - 1] = ?n # [?n + 1 .. ?n + 1 + int (length xs) - 1]"
    by (simp add: upto_rec1)
  ultimately show ?case by simp
qed

section \<open>Every store is well kept\<close>

text \<open>
  Whatever the calls, the tables of a store have no key twice and no key at or above the
  counter. When the updates are typed, every record carries its key as its \<open>id\<close>. The
  properties below that assume a well kept or keyed table are therefore about every
  store that the callers can reach.
\<close>

lemma run_constructor: "run fresh_fields constructor_calls = new_MemStorage"
  by (simp add: constructor_calls_def new_MemStorage_def)

lemma create_keeps:
  assumes "keys_fresh (table c this) (nextIds this c)"
  shows "keys_fresh (table c (snd (create_in c' this d))) (nextIds (snd (create_in c' this d)) c)"
  using assms by (auto simp: table_create_in nextIds_create_in keys_fresh_Map_set_fresh)

lemma create_keeps_keyed:
  assumes "keyed (table c this)"
  shows "keyed (table c (snd (create_in c' this d)))"
  using assms by (auto simp: table_create_in keyed_Map_set id_with_id)

lemma creates_keep:
  "keys_fresh (table c this) (nextIds this c) \<Longrightarrow>
     keys_fresh (table c (run this (map (Create c') xs))) (nextIds (run this (map (Create c') xs)) c)"
  by (induction xs arbitrary: this) (simp_all add: create_keeps)

lemma creates_keep_keyed:
  "keyed (table c this) \<Longrightarrow> keyed (table c (run this (map (Create c') xs)))"
  by (induction xs arbitrary: this) (simp_all add: create_keeps_keyed)

lemma perform_keeps:
  assumes "keys_fresh (table c this) (nextIds this c)"
  shows "keys_fresh (table c (perform this x)) (nextIds (perform this x) c)"
proof (cases x)
  case (Create c' d)
  then show ?thesis using assms by (simp add: create_keeps)
next
  case (Update e i p)
  then show ?thesis
    using assms
    by (auto simp: table_update_in nextIds_update_in keys_fresh_Map_set_held split: option.splits)
next
  case (Delete e i)
  then show ?thesis
    using assms by (auto simp: table_delete_in nextIds_delete_in keys_fresh_filter)
next
  case (RemoveTeacherFromModuleElement t m)
  then show ?thesis
    using assms table_removeTeacher[of c this t m]
    by (auto simp: nextIds_removeTeacher keys_fresh_filter)
next
  case (RemoveStudentFromGroup s g)
  then show ?thesis
    using assms table_removeStudent[of c this s g]
    by (auto simp: nextIds_removeStudent keys_fresh_filter)
next
  case (BatchCreateAbsences xs)
  then show ?thesis
    using assms by (simp add: batch_as_creates creates_keep)
qed

lemma perform_keeps_keyed:
  assumes "keyed (table c this)" and "typed x"
  shows "keyed (table c (perform this x))"
proof (cases x)
  case (Create c' d)
  then show ?thesis using assms by (simp add: create_keeps_keyed)
next
  case (Update e i p)
  have "get_prop (spread existing p) ''id'' = JNum i"
    if "Map_get (table c this) i = Some existing" for existing
    using assms Update that keyed_Map_get[of "table c this" i existing]
    by (simp add: get_prop_def spread_def map_add_def)
  then show ?thesis
    using assms Update
    by (auto simp: table_update_in keyed_Map_set split: option.splits)
next
  case (Delete e i)
  then show ?thesis
    using assms by (auto simp: table_delete_in keyed_filter)
next
  case (RemoveTeacherFromModuleElement t m)
  then show ?thesis
    using assms table_removeTeacher[of c this t m] by (auto simp: keyed_filter)
next
  case (RemoveStudentFromGroup s g)
  then show ?thesis
    using assms table_removeStudent[of c this s g] by (auto simp: keyed_filter)
next
  case (BatchCreateAbsences xs)
  then show ?thesis
    using assms by (simp add: batch_as_creates creates_keep_keyed)
qed

lemma run_keeps:
  "keys_fresh (table c this) (nextIds this c) \<Longrightarrow>
     keys_fresh (table c (run this calls)) (nextIds (run this calls) c)"
  by (induction calls arbitrary: this) (simp_all add: perform_keeps)

lemma run_keeps_keyed:
  "keyed (table c this) \<Longrightarrow> list_all typed calls \<Longrightarrow> keyed (table c (run this calls))"
  by (induction calls arbitrary: this) (simp_all add: perform_keeps_keyed)

lemma fresh_fields_kept:
  "keys_fresh (table c fresh_fields) (nextIds fresh_fields c)" "keyed (table c fresh_fields)"
  by (cases c; simp add: fresh_fields_def keys_fresh_def keyed_def)+

lemma every_store_is_well_kept:
  "keys_fresh (table c (run new_MemStorage calls)) (nextIds (run new_MemStorage calls) c)"
  unfolding run_constructor[symmetric]
  by (intro run_keeps fresh_fields_kept)

lemma every_typed_store_is_keyed:
  "list_all typed calls \<Longrightarrow> keyed (table c (run new_MemStorage calls))"
  unfolding run_constructor[symmetric]
  by (intro run_keeps_keyed fresh_fields_kept) (simp_all add: constructor_calls_def)

section \<open>The example stores, computed\<close>

lemma users_new_MemStorage:
  "users new_MemStorage =
     [(1, with_id seed_admin 1), (2, with_id seed_teacher 2), (3, with_id seed_head 3)]"
  by (simp add: new_MemStorage_def createUser_def fresh_fields_def Let_def)

lemma demo_students:
  "students demo_store =
     [(1, with_id (student_data ''S1'') 1), (2, with_id (student_data ''S2'') 2),
      (3, with_id (student_data ''S3'') 3), (4, with_id (student_data ''S4'') 4),
      (5, with_id (student_data ''S5'') 5)]"
  by (simp add: demo_store_def demo_calls_def new_MemStorage_def fresh_fields_def
      createUser_def createStudent_def assignStudentToGroup_def Let_def)

lemma demo_assignments:
  "studentGroupAssignments demo_store =
     [(1, with_id (assignment_data 5 1) 1), (2, with_id (assignment_data 1 1) 2),
      (3, with_id (assignment_data 3 1) 3)]"
  by (simp add: demo_store_def demo_calls_def new_MemStorage_def fresh_fields_def
      createUser_def createStudent_def assignStudentToGroup_def Let_def)

lemma demo_counters:
  "nextIds demo_store StudentGroupAssignments = 4" "nextIds demo_store Absences = 1"
  "absences demo_store = []"
  by (simp_all add: demo_store_def demo_calls_def new_MemStorage_def fresh_fields_def
      createUser_def createStudent_def assignStudentToGroup_def Let_def)

lemma assignment_props:
  "get_prop (with_id (assignment_data s g) k) ''studentId'' = JNum s"
  "get_prop (with_id (assignment_data s g) k) ''groupId'' = JNum g"
  "get_prop (with_id d k) ''id'' = JNum k"
  "get_prop (assignment_data s g) ''studentId'' = JNum s"
  "get_prop (assignment_data s g) ''groupId'' = JNum g"
  by (simp_all add: get_prop_def with_id_def assignment_data_def)

lemma absence_props:
  "get_prop (with_id (absence_data k sid st) i) ''studentId'' = JNum sid"
  "get_prop (with_id (absence_data k sid st) i) ''status'' = JStr st"
  by (simp_all add: get_prop_def with_id_def absence_data_def)

lemma student_props:
  "get_prop (with_id (student_data c) i) ''id'' = JNum i"
  "get_prop (with_id (student_data c) i) ''firstName'' = JStr ''Ada''"
  "get_prop (with_id (student_data c) i) ''lastName'' = JStr c"
  by (simp_all add: get_prop_def with_id_def student_data_def)

lemma absent_store_absences:
  "listAbsences absent_store =
     [with_id (absence_data 1 1 ''absent'') 1,
      with_id (absence_data 1 3 ''absent'') 2,
      with_id (absence_data 1 2 ''absent'') 3,
      with_id (absence_data 2 1 ''absent'') 4,
      with_id (absence_data 2 3 ''absent'') 5,
      with_id (absence_data 2 2 ''absent'') 6,
      with_id (absence_data 3 1 ''absent'') 7,
      with_id (absence_data 3 3 ''absent'') 8,
      with_id (absence_data 3 2 ''absent'') 9,
      with_id (absence_data 4 3 ''absent'') 10,
      with_id (absence_data 4 2 ''absent'') 11,
      with_id (absence_data 5 3 ''absent'') 12,
      with_id (absence_data 5 2 ''absent'') 13]"
  by (simp add: absent_store_def batchCreateAbsences_def absence_rows_3_5_5_def createAbsence_def
      Let_def listAbsences_def Map_values_def demo_counters)

lemma absent_store_students: "students absent_store = students demo_store"
  by (simp add: absent_store_def batch_as_creates createAbsence_def Let_def
      absence_rows_3_5_5_def)

lemma absent_store_groups:
  "absencesByStudent_loop [] (listAbsences absent_store) = [(JNum 1, 3), (JNum 3, 5), (JNum 2, 5)]"
  by (simp add: absent_store_absences absence_props Map_get_def)

lemma absent_store_top:
  "top_absentees absent_store (Limit 2) =
     [\<lparr>studentId = JNum 3, studentName = ''Ada S3'', absenceCount = 5\<rparr>,
      \<lparr>studentId = JNum 2, studentName = ''Ada S2'', absenceCount = 5\<rparr>]"
  "top_absentees absent_store NoLimit =
     [\<lparr>studentId = JNum 3, studentName = ''Ada S3'', absenceCount = 5\<rparr>,
      \<lparr>studentId = JNum 2, studentName = ''Ada S2'', absenceCount = 5\<rparr>,
      \<lparr>studentId = JNum 1, studentName = ''Ada S1'', absenceCount = 3\<rparr>]"
  by (simp_all add: top_absentees_def absent_store_groups absent_store_students listStudents_def
      Map_values_def Map_entries_def demo_students topAbsentee_of_def student_props
      slice_from_0_def Let_def)

section \<open>Identifiers are monotonic\<close>

lemma created_ids:
  "map (\<lambda>r. get_prop r ''id'') (created c this x) =
     map JNum [nextIds this c .. nextIds this c + int (creations c x) - 1]"
proof (cases x)
  case (Create c' d)
  then show ?thesis by (simp add: fst_create_in id_with_id)
next
  case (BatchCreateAbsences xs)
  have "fst (batchCreateAbsences this xs) =
          map2 with_id xs [nextIds this Absences .. nextIds this Absences + int (length xs) - 1]"
    unfolding batchCreateAbsences_def by (subst batch_loop) simp
  then have "map (\<lambda>r. get_prop r ''id'') (fst (batchCreateAbsences this xs)) =
          map JNum [nextIds this Absences .. nextIds this Absences + int (length xs) - 1]"
    by (simp only: ids_map2_with_id length_upto_nat)
  then show ?thesis using BatchCreateAbsences by simp
qed simp_all

lemma nextIds_perform: "nextIds (perform this x) c = nextIds this c + int (creations c x)"
proof (cases x)
  case (Create c' d)
  then show ?thesis by (simp add: nextIds_create_in)
next
  case (BatchCreateAbsences xs)
  then show ?thesis
    by (simp add: batchCreateAbsences_def snd_batch_loop nextIds_fold_createAbsence)
qed (simp_all add: nextIds_update_in nextIds_delete_in nextIds_removeTeacher nextIds_removeStudent)

lemma upto_append_next:
  fixes n a b :: int
  shows "0 \<le> a \<Longrightarrow> 0 \<le> b \<Longrightarrow> [n .. n + a - 1] @ [n + a .. n + a + b - 1] = [n .. n + a + b - 1]"
proof (cases "a = 0")
  case True
  then show ?thesis by simp
next
  case False
  assume "0 \<le> a" "0 \<le> b"
  with False have "n \<le> n + a - 1" "n + a - 1 \<le> n + a + b - 1" by simp_all
  from upto_split2[OF this] show ?thesis by simp
qed

lemma created_by_ids:
  "map (\<lambda>r. get_prop r ''id'') (created_by c this calls) =
     map JNum [nextIds this c .. nextIds this c + int (sum_list (map (creations c) calls)) - 1]"
proof (induction calls arbitrary: this)
  case Nil
  then show ?case by simp
next
  case (Cons x xs)
  let ?n = "nextIds this c" and ?a = "int (creations c x)"
    and ?b = "int (sum_list (map (creations c) xs))"
  have "map (\<lambda>r. get_prop r ''id'') (created_by c this (x # xs)) =
          map JNum [?n .. ?n + ?a - 1] @ map JNum [?n + ?a .. ?n + ?a + ?b - 1]"
    by (simp add: created_ids Cons.IH nextIds_perform)
  also have "\<dots> = map JNum ([?n .. ?n + ?a - 1] @ [?n + ?a .. ?n + ?a + ?b - 1])"
    by simp
  also have "\<dots> = map JNum [?n .. ?n + ?a + ?b - 1]"
    by (subst upto_append_next) simp_all
  finally show ?case by (simp add: add.assoc)
qed

lemma nextIds_run:
  "nextIds (run this calls) c = nextIds this c + int (sum_list (map (creations c) calls))"
  by (induction calls arbitrary: this) (simp_all add: nextIds_perform)

text \<open>
  Claim C1. In every collection the counter starts at 1, and in every history of calls
  on a store (the three creations of the constructor first, then any calls whatever:
  creations, updates, deletions and removals in any collection, in any order) the
  records created in a collection carry the identifiers 1, 2, 3, ... in the order of
  their creation: as many identifiers as creations, each one greater than all the
  identifiers given before it in the collection, whatever was deleted in between. The
  counter of the collection ends at one more than the number of creations.
\<close>

theorem identifiers_are_monotonic:
  "nextIds fresh_fields c = 1
   \<and> run fresh_fields constructor_calls = new_MemStorage
   \<and> map (\<lambda>r. get_prop r ''id'') (created_by c fresh_fields (constructor_calls @ calls)) =
       map JNum [1 .. int (sum_list (map (creations c) (constructor_calls @ calls)))]
   \<and> distinct (map (\<lambda>r. get_prop r ''id'') (created_by c fresh_fields (constructor_calls @ calls)))
   \<and> nextIds (run fresh_fields (constructor_calls @ calls)) c =
       1 + int (sum_list (map (creations c) (constructor_calls @ calls)))"
proof -
  have start: "nextIds fresh_fields c = 1"
    by (simp add: fresh_fields_def)
  have ids: "map (\<lambda>r. get_prop r ''id'') (created_by c fresh_fields (constructor_calls @ calls)) =
       map JNum [1 .. int (sum_list (map (creations c) (constructor_calls @ calls)))]"
    by (simp only: created_by_ids start) simp
  have "distinct (map JNum [1 .. int (sum_list (map (creations c) (constructor_calls @ calls)))])"
    by (simp add: distinct_map inj_on_def)
  with ids start show ?thesis
    by (simp only: nextIds_run run_constructor)
qed

section \<open>Update preserves the fields it is not given\<close>

text \<open>
  Claim C2. For each of the nine entities, when the collection holds a record under an
  identifier, \<^verbatim>\<open>update\<close> with a partial payload returns the spread of the payload over
  the stored record and stores it under the same identifier. Every field that the
  payload does not have keeps the value it had, and so does the \<open>id\<close>, which no typed
  payload has; every field that the payload has takes the value of the payload. The
  other records of the collection, the order of its keys, the other collections and the
  counters are as before.
\<close>

theorem update_preserves_untouched_fields:
  "get_in e this i = Some existing \<Longrightarrow>
     fst (update_in e this i p) = Some (spread existing p)
   \<and> get_in e (snd (update_in e this i p)) i = Some (spread existing p)
   \<and> (\<forall>f. f \<notin> dom p \<longrightarrow> spread existing p f = existing f)
   \<and> (\<forall>f. f \<in> dom p \<longrightarrow> spread existing p f = p f)
   \<and> (''id'' \<notin> dom p \<longrightarrow> get_prop (spread existing p) ''id'' = get_prop existing ''id'')
   \<and> (\<forall>k. k \<noteq> i \<longrightarrow> get_in e (snd (update_in e this i p)) k = get_in e this k)
   \<and> map fst (table (coll_of e) (snd (update_in e this i p))) = map fst (table (coll_of e) this)
   \<and> (\<forall>c. c \<noteq> coll_of e \<longrightarrow> table c (snd (update_in e this i p)) = table c this)
   \<and> nextIds (snd (update_in e this i p)) = nextIds this"
proof -
  assume ex: "get_in e this i = Some existing"
  then have g: "Map_get (table (coll_of e) this) i = Some existing"
    by (simp add: get_in_table)
  then have key: "i \<in> set (map fst (table (coll_of e) this))"
    using Map_get_None[of "table (coll_of e) this" i] by auto
  have "fst (update_in e this i p) = Some (spread existing p)"
    by (simp add: fst_update_in ex)
  moreover have "\<And>k. get_in e (snd (update_in e this i p)) k =
      (if k = i then Some (spread existing p) else get_in e this k)"
    by (simp add: get_in_table table_update_in g Map_get_Map_set)
  moreover have "\<And>f. f \<notin> dom p \<Longrightarrow> spread existing p f = existing f"
    by (simp add: spread_def map_add_dom_app_simps)
  moreover have "\<And>f. f \<in> dom p \<Longrightarrow> spread existing p f = p f"
    by (simp add: spread_def map_add_dom_app_simps)
  moreover have "map fst (table (coll_of e) (snd (update_in e this i p))) = map fst (table (coll_of e) this)"
    using key by (simp add: table_update_in g keys_Map_set)
  moreover have "\<And>c. c \<noteq> coll_of e \<Longrightarrow> table c (snd (update_in e this i p)) = table c this"
    by (simp add: table_update_in g)
  ultimately show ?thesis
    by (simp add: nextIds_update_in get_prop_def)
qed

theorem update_preserves_untouched_fields_witness:
  "get_in EUser new_MemStorage 2 = Some (with_id seed_teacher 2)
   \<and> fst (update_in EUser new_MemStorage 2 [''email'' \<mapsto> JStr ''t@example.com'']) =
       Some (spread (with_id seed_teacher 2) [''email'' \<mapsto> JStr ''t@example.com''])
   \<and> get_in EUser (snd (update_in EUser new_MemStorage 2 [''email'' \<mapsto> JStr ''t@example.com''])) 2 =
       Some (spread (with_id seed_teacher 2) [''email'' \<mapsto> JStr ''t@example.com''])
   \<and> get_prop (spread (with_id seed_teacher 2) [''email'' \<mapsto> JStr ''t@example.com'']) ''email'' =
       JStr ''t@example.com''
   \<and> get_prop (spread (with_id seed_teacher 2) [''email'' \<mapsto> JStr ''t@example.com'']) ''username'' =
       JStr ''teacher''
   \<and> get_prop (spread (with_id seed_teacher 2) [''email'' \<mapsto> JStr ''t@example.com'']) ''id'' = JNum 2"
proof -
  have h: "get_in EUser new_MemStorage 2 = Some (with_id seed_teacher 2)"
    by (simp add: getUser_def Map_get_def users_new_MemStorage)
  have v: "get_prop (with_id seed_teacher 2) ''username'' = JStr ''teacher''"
      "get_prop (with_id seed_teacher 2) ''id'' = JNum 2"
    by (simp_all add: get_prop_def with_id_def seed_teacher_def)
  from update_preserves_untouched_fields[OF h, of "[''email'' \<mapsto> JStr ''t@example.com'']"]
  show ?thesis
    using h v by (simp add: get_prop_def spread_def)
qed

section \<open>A missing identifier is signalled, not raised\<close>

text \<open>
  Claim C3. For each of the nine entities and every identifier that is the key of no
  record of the collection: \<^verbatim>\<open>get\<close> returns \<^verbatim>\<open>undefined\<close>, \<^verbatim>\<open>update\<close> returns
  \<^verbatim>\<open>undefined\<close> and \<^verbatim>\<open>delete\<close> returns \<^verbatim>\<open>false\<close>, each of them as a value (the
  methods have no raising branch), and the store they leave is the store they were given;
  deleting once more changes nothing either. After a delete of any identifier, present
  or not, a second delete of it returns \<^verbatim>\<open>false\<close>.
\<close>

theorem not_found_is_signalled:
  "i \<notin> set (map fst (table (coll_of e) this)) \<Longrightarrow>
     get_in e this i = None
   \<and> update_in e this i p = (None, this)
   \<and> delete_in e this i = (False, this)
   \<and> delete_in e (snd (delete_in e this i)) i = (False, this)
   \<and> fst (delete_in e (snd (delete_in e this j)) j) = False"
proof -
  assume "i \<notin> set (map fst (table (coll_of e) this))"
  then have "get_in e this i = None"
    by (simp add: get_in_table Map_get_None)
  then show ?thesis
    by (simp add: update_in_absent delete_in_absent delete_in_again)
qed

theorem not_found_is_signalled_witness:
  "7 \<notin> set (map fst (table (coll_of EUser) new_MemStorage))
   \<and> get_in EUser new_MemStorage 7 = None
   \<and> update_in EUser new_MemStorage 7 [''email'' \<mapsto> JStr ''t@example.com''] = (None, new_MemStorage)
   \<and> delete_in EUser new_MemStorage 7 = (False, new_MemStorage)
   \<and> delete_in EUser (snd (delete_in EUser new_MemStorage 7)) 7 = (False, new_MemStorage)
   \<and> fst (delete_in EUser new_MemStorage 2) = True
   \<and> fst (delete_in EUser (snd (delete_in EUser new_MemStorage 2)) 2) = False"
proof -
  have h: "7 \<notin> set (map fst (table (coll_of EUser) new_MemStorage))"
    by (simp add: users_new_MemStorage)
  have d: "fst (delete_in EUser new_MemStorage 2) = True"
    by (simp add: deleteUser_def Map_delete_def Map_has_def users_new_MemStorage)
  from not_found_is_signalled[OF h, of "[''email'' \<mapsto> JStr ''t@example.com'']" 2]
  show ?thesis using h d by simp
qed

section \<open>The top absentees\<close>

lemma absent_rows_Cons:
  "absent_rows (a # as) k =
     (if get_prop a ''status'' = JStr ''absent'' \<and> get_prop a ''studentId'' = k then 1 else 0)
       + absent_rows as k"
  by (simp add: absent_rows_def)

lemma absent_rows_nonneg: "0 \<le> absent_rows as k"
  by (simp add: absent_rows_def)

lemma loop_lookup:
  "map_of (absencesByStudent_loop m as) k =
     (if map_of m k = None \<and> absent_rows as k = 0 then None
      else Some (held m k + absent_rows as k))"
proof (induction as arbitrary: m)
  case Nil
  then show ?case by (simp add: absent_rows_def held_def split: option.splits)
next
  case (Cons a as)
  show ?case
  proof (cases "get_prop a ''status'' = JStr ''absent''")
    case False
    then show ?thesis by (simp add: Cons.IH absent_rows_Cons)
  next
    case True
    let ?sid = "get_prop a ''studentId''"
    let ?m' = "Map_set m ?sid (held m ?sid + 1)"
    have step: "absencesByStudent_loop m (a # as) = absencesByStudent_loop ?m' as"
      using True by (simp add: Map_get_def held_def Let_def split: option.splits)
    have m': "map_of ?m' = (map_of m)(?sid \<mapsto> held m ?sid + 1)"
      by (rule map_of_Map_set)
    have h': "held ?m' k = (if k = ?sid then held m ?sid + 1 else held m k)"
      by (simp add: held_def map_of_Map_set)
    show ?thesis
      unfolding step Cons.IH
      using absent_rows_nonneg[of as k] True
      by (auto simp: m' h' absent_rows_Cons)
  qed
qed

lemma loop_distinct:
  "distinct (map fst m) \<Longrightarrow> distinct (map fst (absencesByStudent_loop m as))"
proof (induction as arbitrary: m)
  case Nil
  then show ?case by simp
next
  case (Cons a as)
  then show ?case by (simp add: Let_def keys_Map_set)
qed

lemma loop_length: "length (absencesByStudent_loop m as) \<le> length m + length as"
proof (induction as arbitrary: m)
  case Nil
  then show ?case by simp
next
  case (Cons a as)
  have len: "length (Map_set m k v) \<le> Suc (length m)" for k and v :: int
    using arg_cong[OF keys_Map_set[of m k v], of length] by (simp split: if_splits)
  show ?case
  proof (cases "get_prop a ''status'' = JStr ''absent''")
    case False
    then show ?thesis using Cons.IH[of m] by simp
  next
    case True
    obtain v where "absencesByStudent_loop m (a # as) =
        absencesByStudent_loop (Map_set m (get_prop a ''studentId'') v) as"
      using True by (simp add: Let_def)
    then show ?thesis
      using Cons.IH[of "Map_set m (get_prop a ''studentId'') v"] len[of "get_prop a ''studentId''" v]
      by simp
  qed
qed

lemma groups_of_absences:
  "distinct (map fst (absencesByStudent_loop [] as))"
  "(k, n) \<in> set (absencesByStudent_loop [] as) \<longleftrightarrow> n = absent_rows as k \<and> 0 < n"
  "length (absencesByStudent_loop [] as) \<le> length as"
proof -
  show d: "distinct (map fst (absencesByStudent_loop [] as))"
    by (rule loop_distinct) simp
  have "(k, n) \<in> set (absencesByStudent_loop [] as) \<longleftrightarrow>
          map_of (absencesByStudent_loop [] as) k = Some n"
    using d by simp
  also have "\<dots> \<longleftrightarrow> n = absent_rows as k \<and> 0 < n"
    using absent_rows_nonneg[of as k] by (auto simp: loop_lookup held_def)
  finally show "(k, n) \<in> set (absencesByStudent_loop [] as) \<longleftrightarrow> n = absent_rows as k \<and> 0 < n" .
  show "length (absencesByStudent_loop [] as) \<le> length as"
    using loop_length[of "[]" as] by simp
qed

lemma top_absentees_ranking:
  "top_absentees storage q = slice_from_0 (ranking storage) (limit_of q)"
  by (simp add: top_absentees_def ranking_def Let_def)

lemma pair_of_topAbsentee: "pair_of (topAbsentee_of studs entry) = entry"
  by (cases entry) (simp add: topAbsentee_of_def Let_def)

lemma pairs_ranking:
  "mset (map pair_of (ranking storage)) = mset (absencesByStudent_loop [] (listAbsences storage))"
proof -
  let ?gm = "absencesByStudent_loop [] (listAbsences storage)"
  have e: "map pair_of (map (topAbsentee_of (listStudents storage)) ?gm) = ?gm"
    by (simp add: pair_of_topAbsentee comp_def)
  have "mset (map pair_of (ranking storage)) =
      mset (map pair_of (map (topAbsentee_of (listStudents storage)) ?gm))"
    unfolding ranking_def Map_entries_def by (simp only: mset_map mset_sort)
  then show ?thesis by (simp only: e)
qed

lemma ranking_facts:
  "distinct (map studentId (ranking storage))"
  "(k, n) \<in> set (map pair_of (ranking storage)) \<longleftrightarrow> n = absent_rows (listAbsences storage) k \<and> 0 < n"
  "sorted_wrt (\<lambda>a b. absenceCount b \<le> absenceCount a) (ranking storage)"
  "length (ranking storage) \<le> length (listAbsences storage)"
proof -
  let ?gm = "absencesByStudent_loop [] (listAbsences storage)"
  have "map studentId (ranking storage) = map fst (map pair_of (ranking storage))"
    by (simp add: comp_def)
  then have "mset (map studentId (ranking storage)) = image_mset fst (mset (map pair_of (ranking storage)))"
    by (simp only: mset_map)
  also have "\<dots> = image_mset fst (mset ?gm)"
    by (simp only: pairs_ranking)
  also have "\<dots> = mset (map fst ?gm)"
    by (simp only: mset_map)
  finally have "mset (map studentId (ranking storage)) = mset (map fst ?gm)" .
  then show "distinct (map studentId (ranking storage))"
    using groups_of_absences(1)[of "listAbsences storage"] by (metis mset_eq_imp_distinct_iff)
  have "set (map pair_of (ranking storage)) = set ?gm"
    using pairs_ranking[of storage] by (rule mset_eq_setD)
  then show "(k, n) \<in> set (map pair_of (ranking storage)) \<longleftrightarrow>
      n = absent_rows (listAbsences storage) k \<and> 0 < n"
    by (simp only: groups_of_absences(2))
  have "sorted (map (\<lambda>e. - absenceCount e) (ranking storage))"
    by (simp add: ranking_def)
  then show "sorted_wrt (\<lambda>a b. absenceCount b \<le> absenceCount a) (ranking storage)"
    by (simp add: sorted_map)
  have "length (ranking storage) = length ?gm"
    by (simp add: ranking_def Map_entries_def)
  then show "length (ranking storage) \<le> length (listAbsences storage)"
    using groups_of_absences(3)[of "listAbsences storage"] by simp
qed

lemma slice_take: "0 \<le> n \<Longrightarrow> slice_from_0 xs (Some n) = take (nat n) xs"
  by (simp add: slice_from_0_def)

lemma full_ranking:
  "top_absentees storage (Limit (int (length (listAbsences storage)))) = ranking storage"
  using ranking_facts(4)[of storage] by (simp add: top_absentees_ranking slice_take)

lemma absent_rows_count:
  "absent_rows as k =
     int (count (mset (map (\<lambda>a. (get_prop a ''studentId'', get_prop a ''status'')) as))
            (k, JStr ''absent''))"
  by (induction as) (auto simp: absent_rows_Cons absent_rows_def)

lemma top_two_of_three:
  assumes d: "distinct (map studentId r)"
    and p: "set (map pair_of r) = {(s1, 3), (s2, 5), (s3, 5)}"
    and s: "sorted_wrt (\<lambda>a b. absenceCount b \<le> absenceCount a) r"
    and ne: "s1 \<noteq> s2" "s1 \<noteq> s3" "s2 \<noteq> s3"
  shows "set (map pair_of (take 2 r)) = {(s2, 5), (s3, 5)} \<and> length (take 2 r) = 2
     \<and> s1 \<notin> set (map studentId (take 2 r))"
proof -
  have "set (map studentId r) = fst ` set (map pair_of r)"
    by (simp add: image_image)
  also have "\<dots> = fst ` {(s1, 3::int), (s2, 5), (s3, 5)}"
    by (simp only: p)
  also have "\<dots> = {s1, s2, s3}"
    by simp
  finally have "card (set (map studentId r)) = 3"
    using ne by simp
  with d have "length r = 3"
    using distinct_card[of "map studentId r"] by simp
  then obtain a b c where r: "r = [a, b, c]"
    by (auto simp: length_Suc_conv numeral_3_eq_3)
  from p r have mem: "pair_of a \<in> {(s1, 3), (s2, 5), (s3, 5)}"
      "pair_of b \<in> {(s1, 3), (s2, 5), (s3, 5)}" "pair_of c \<in> {(s1, 3), (s2, 5), (s3, 5)}"
    and cov: "(s1, 3) \<in> {pair_of a, pair_of b, pair_of c}"
    by auto
  from d r have ids: "studentId a \<noteq> studentId b" "studentId a \<noteq> studentId c"
      "studentId b \<noteq> studentId c"
    by auto
  from s r have ord: "absenceCount b \<le> absenceCount a" "absenceCount c \<le> absenceCount b"
    by auto
  have c: "pair_of c = (s1, 3)"
    using mem cov ids ord by auto
  then have "pair_of a \<in> {(s2, 5), (s3, 5)}" "pair_of b \<in> {(s2, 5), (s3, 5)}"
    using mem ids by auto
  then have "{pair_of a, pair_of b} = {(s2, 5), (s3, 5)}" "s1 \<noteq> studentId a" "s1 \<noteq> studentId b"
    using ids ne by auto
  then show ?thesis
    by (simp add: r)
qed

text \<open>
  Claim C4. Let \<open>full\<close> be what the route answers when the limit is the number of
  absences, which cuts nothing. It has one entry per student who has a row with the
  status \<open>absent\<close>, no student twice; the count of an entry is the number of such rows
  of its student, rows with another status counting for nothing; and the counts never
  increase along it. With a limit \<open>l \<ge> 0\<close> the route answers the first \<open>l\<close> entries of
  \<open>full\<close>, and without a limit the first 5. In particular, whenever the absences are, in
  any order, three \<open>absent\<close> rows of a student \<open>sa\<close> and five of each of two other
  students \<open>sb\<close> and \<open>sc\<close>, the route with the limit 2 answers two entries, those of \<open>sb\<close>
  and \<open>sc\<close> with the count 5, and none for \<open>sa\<close>.
\<close>

theorem top_absentees_counts_sorts_truncates:
  fixes storage :: MemStorage and k sa sb sc :: jsval and n l :: int
  defines "absences' \<equiv> listAbsences storage"
  defines "full \<equiv> top_absentees storage (Limit (int (length absences')))"
  shows
    "distinct (map studentId full)
     \<and> ((k, n) \<in> set (map (\<lambda>e. (studentId e, absenceCount e)) full)
          \<longleftrightarrow> n = absent_rows absences' k \<and> 0 < n)
     \<and> sorted_wrt (\<lambda>a b. absenceCount b \<le> absenceCount a) full
     \<and> (0 \<le> l \<longrightarrow> top_absentees storage (Limit l) = take (nat l) full)
     \<and> top_absentees storage NoLimit = take 5 full
     \<and> (sa \<noteq> sb \<and> sa \<noteq> sc \<and> sb \<noteq> sc
          \<and> mset (map (\<lambda>a. (get_prop a ''studentId'', get_prop a ''status'')) absences') =
              replicate_mset 3 (sa, JStr ''absent'') + replicate_mset 5 (sb, JStr ''absent'')
                + replicate_mset 5 (sc, JStr ''absent'') \<longrightarrow>
          set (map (\<lambda>e. (studentId e, absenceCount e)) (top_absentees storage (Limit 2))) =
            {(sb, 5), (sc, 5)}
          \<and> length (top_absentees storage (Limit 2)) = 2
          \<and> sa \<notin> set (map studentId (top_absentees storage (Limit 2))))"
proof -
  have full: "full = ranking storage"
    unfolding full_def absences'_def by (rule full_ranking)
  have trunc: "top_absentees storage (Limit l) = take (nat l) full" if "0 \<le> l" for l
    using that by (simp add: top_absentees_ranking slice_take full)
  have dflt: "top_absentees storage NoLimit = take 5 full"
    by (simp add: top_absentees_ranking slice_take full)
  have example: "set (map pair_of (take 2 full)) = {(sb, 5), (sc, 5)}
      \<and> length (take 2 full) = 2 \<and> sa \<notin> set (map studentId (take 2 full))"
    if ne: "sa \<noteq> sb" "sa \<noteq> sc" "sb \<noteq> sc"
      and m: "mset (map (\<lambda>a. (get_prop a ''studentId'', get_prop a ''status'')) absences') =
              replicate_mset 3 (sa, JStr ''absent'') + replicate_mset 5 (sb, JStr ''absent'')
                + replicate_mset 5 (sc, JStr ''absent'')"
  proof -
    have "count (mset (map (\<lambda>a. (get_prop a ''studentId'', get_prop a ''status'')) absences'))
            (j, JStr ''absent'') =
        (if j = sa then 3 else if j = sb then 5 else if j = sc then 5 else 0)" for j
      unfolding m using ne by simp
    then have rows: "absent_rows absences' j =
        (if j = sa then 3 else if j = sb then 5 else if j = sc then 5 else 0)" for j
      by (simp only: absent_rows_count) simp
    have "set (map pair_of full) = {(sa, 3), (sb, 5), (sc, 5)}"
    proof (rule set_eqI)
      fix x :: "jsval \<times> int"
      obtain j c where x: "x = (j, c)" by (cases x)
      have "(j, c) \<in> set (map pair_of full) \<longleftrightarrow> c = absent_rows absences' j \<and> 0 < c"
        unfolding full absences'_def by (rule ranking_facts(2))
      then show "x \<in> set (map pair_of full) \<longleftrightarrow> x \<in> {(sa, 3), (sb, 5), (sc, 5)}"
        unfolding x using ne by (auto simp: rows)
    qed
    with ne show ?thesis
      by (intro top_two_of_three) (simp_all add: full ranking_facts)
  qed
  show ?thesis
    using ranking_facts(1,3)[of storage] ranking_facts(2)[of k n storage] trunc[of l] trunc[of 2]
      dflt example
    by (simp add: full absences'_def)
qed

theorem top_absentees_counts_sorts_truncates_witness:
  "JNum 1 \<noteq> JNum 2 \<and> JNum 1 \<noteq> JNum 3 \<and> JNum 2 \<noteq> JNum 3
   \<and> mset (map (\<lambda>a. (get_prop a ''studentId'', get_prop a ''status'')) (listAbsences absent_store)) =
       replicate_mset 3 (JNum 1, JStr ''absent'') + replicate_mset 5 (JNum 2, JStr ''absent'')
         + replicate_mset 5 (JNum 3, JStr ''absent'')
   \<and> set (map (\<lambda>e. (studentId e, absenceCount e)) (top_absentees absent_store (Limit 2))) =
       {(JNum 2, 5), (JNum 3, 5)}
   \<and> length (top_absentees absent_store (Limit 2)) = 2
   \<and> JNum 1 \<notin> set (map studentId (top_absentees absent_store (Limit 2)))
   \<and> top_absentees absent_store (Limit 2) =
       [\<lparr>studentId = JNum 3, studentName = ''Ada S3'', absenceCount = 5\<rparr>,
        \<lparr>studentId = JNum 2, studentName = ''Ada S2'', absenceCount = 5\<rparr>]
   \<and> top_absentees absent_store NoLimit =
       [\<lparr>studentId = JNum 3, studentName = ''Ada S3'', absenceCount = 5\<rparr>,
        \<lparr>studentId = JNum 2, studentName = ''Ada S2'', absenceCount = 5\<rparr>,
        \<lparr>studentId = JNum 1, studentName = ''Ada S1'', absenceCount = 3\<rparr>]"
proof -
  have h: "JNum 1 \<noteq> JNum 2 \<and> JNum 1 \<noteq> JNum 3 \<and> JNum 2 \<noteq> JNum 3
      \<and> mset (map (\<lambda>a. (get_prop a ''studentId'', get_prop a ''status'')) (listAbsences absent_store)) =
       replicate_mset 3 (JNum 1, JStr ''absent'') + replicate_mset 5 (JNum 2, JStr ''absent'')
         + replicate_mset 5 (JNum 3, JStr ''absent'')"
    by (simp add: absent_store_absences absence_props eval_nat_numeral)
  note top_absentees_counts_sorts_truncates
         [where storage = absent_store and sa = "JNum 1" and sb = "JNum 2" and sc = "JNum 3",
          THEN conjunct2, THEN conjunct2, THEN conjunct2, THEN conjunct2, THEN conjunct2,
          THEN mp, OF h]
  with h absent_store_top show ?thesis
    by (intro conjI) (simp_all only: HOL.simp_thms)
qed

section \<open>The threshold report\<close>

lemma getStudentAbsences_count: "getStudentAbsences (Some as) sid = absent_count as sid"
  by (simp add: getStudentAbsences_def or_else_def absent_count_def ABSENCE_STATUSES_ABSENT_def)

text \<open>
  Claim C5, as amended. For every course whose \<^verbatim>\<open>absenceThreshold\<close> is set and is not 0,
  and every fetched student whose \<^verbatim>\<open>courseId\<close> is the id of the course, the card of the
  course lists the student if and only if the number of the student's absences with the
  status \<open>absent\<close> is strictly greater than the threshold; a student whose count equals
  the threshold is not listed. A course gets no card exactly when its threshold is unset
  or 0, whatever was fetched; then the report flags no student for it. The report is the
  list of the courses, each with its card or with none.
\<close>

theorem threshold_report_flags:
  "(c_absenceThreshold course = Some t \<and> t \<noteq> 0
      \<and> student \<in> set students' \<and> s_courseId student = c_id course \<longrightarrow>
        flagged (Some students') (Some absences') course student
          = (absent_count absences' (s_id student) > t))
   \<and> ((threshold_card fetched_students fetched_absences course = None)
        = (c_absenceThreshold course = None \<or> c_absenceThreshold course = Some 0))
   \<and> (c_absenceThreshold course = None \<or> c_absenceThreshold course = Some 0 \<longrightarrow>
        threshold_card fetched_students fetched_absences course = None
        \<and> \<not> flagged fetched_students fetched_absences course anyone)
   \<and> threshold_report (Some courses') fetched_students fetched_absences =
       Some (map (\<lambda>c. (c, threshold_card fetched_students fetched_absences c)) courses')"
proof -
  have nonzero: "flagged (Some students') (Some absences') course student
          = (absent_count absences' (s_id student) > t)"
    if "c_absenceThreshold course = Some t" "t \<noteq> 0"
      "student \<in> set students'" "s_courseId student = c_id course"
    using that
    by (auto simp: flagged_def threshold_card_def Let_def or_else_def getStudentAbsences_count)
  have card: "(threshold_card fetched_students fetched_absences course = None)
        = (c_absenceThreshold course = None \<or> c_absenceThreshold course = Some 0)"
    by (simp add: threshold_card_def Let_def split: option.splits)
  have none: "\<not> flagged fetched_students fetched_absences course anyone"
    if "threshold_card fetched_students fetched_absences course = None"
    using that by (simp add: flagged_def)
  have report: "threshold_report (Some courses') fetched_students fetched_absences =
       Some (map (\<lambda>c. (c, threshold_card fetched_students fetched_absences c)) courses')"
    by (simp add: threshold_report_def)
  from nonzero card none report show ?thesis
    by blast
qed

theorem threshold_report_flags_witness:
  "c_absenceThreshold course3 = Some 3 \<and> (3::int) \<noteq> 0
   \<and> studentA \<in> set [studentA, studentB] \<and> s_courseId studentA = c_id course3
   \<and> studentB \<in> set [studentA, studentB] \<and> s_courseId studentB = c_id course3
   \<and> absent_count absences_A4_B3 (s_id studentA) = 4
   \<and> absent_count absences_A4_B3 (s_id studentB) = 3
   \<and> flagged (Some [studentA, studentB]) (Some absences_A4_B3) course3 studentA
   \<and> \<not> flagged (Some [studentA, studentB]) (Some absences_A4_B3) course3 studentB
   \<and> c_absenceThreshold course0 = Some 0
   \<and> threshold_card (Some [studentA, studentB]) (Some absences_A4_B3) course0 = None
   \<and> \<not> flagged (Some [studentA, studentB]) (Some absences_A4_B3) course0 studentA
   \<and> c_absenceThreshold course_unset = None
   \<and> threshold_card (Some [studentA, studentB]) (Some absences_A4_B3) course_unset = None
   \<and> \<not> flagged (Some [studentA, studentB]) (Some absences_A4_B3) course_unset studentA"
proof -
  have hA: "c_absenceThreshold course3 = Some 3 \<and> (3::int) \<noteq> 0
      \<and> studentA \<in> set [studentA, studentB] \<and> s_courseId studentA = c_id course3"
    and hB: "c_absenceThreshold course3 = Some 3 \<and> (3::int) \<noteq> 0
      \<and> studentB \<in> set [studentA, studentB] \<and> s_courseId studentB = c_id course3"
    by (simp_all add: course3_def studentA_def studentB_def)
  have c: "absent_count absences_A4_B3 (s_id studentA) = 4"
    "absent_count absences_A4_B3 (s_id studentB) = 3"
    by (simp_all add: absent_count_def absences_A4_B3_def absence_at_def studentA_def studentB_def)
  have z: "c_absenceThreshold course0 = None \<or> c_absenceThreshold course0 = Some 0"
    and u: "c_absenceThreshold course_unset = None \<or> c_absenceThreshold course_unset = Some 0"
    by (simp_all add: course0_def course_unset_def)
  have t: "c_absenceThreshold course0 = Some 0" "c_absenceThreshold course_unset = None"
    by (simp_all add: course0_def course_unset_def)
  note fA = threshold_report_flags[THEN conjunct1, THEN mp, OF hA, of absences_A4_B3]
  note fB = threshold_report_flags[THEN conjunct1, THEN mp, OF hB, of absences_A4_B3]
  note n0 = threshold_report_flags[THEN conjunct2, THEN conjunct2, THEN conjunct1, THEN mp, OF z,
      of "Some [studentA, studentB]" "Some absences_A4_B3" studentA]
  note nu = threshold_report_flags[THEN conjunct2, THEN conjunct2, THEN conjunct1, THEN mp, OF u,
      of "Some [studentA, studentB]" "Some absences_A4_B3" studentA]
  from fA fB n0 nu hA hB c t show ?thesis
    by simp
qed

text \<open>
  The claim as it was stated, for every course with a threshold, fails for the threshold
  0: the guard \<^verbatim>\<open>if (!course.absenceThreshold) return null\<close> gives such a course no
  card, so a student of the course with one absence, which exceeds 0, is not flagged.
\<close>

theorem threshold_zero_counterexample:
  "c_absenceThreshold course0 = Some 0
   \<and> studentA \<in> set [studentA] \<and> s_courseId studentA = c_id course0
   \<and> absent_count [absence_at 1 1 ''absent''] (s_id studentA) = 1
   \<and> threshold_card (Some [studentA]) (Some [absence_at 1 1 ''absent'']) course0 = None
   \<and> \<not> (flagged (Some [studentA]) (Some [absence_at 1 1 ''absent'']) course0 studentA
          = (absent_count [absence_at 1 1 ''absent''] (s_id studentA) > 0))"
  by (simp add: flagged_def threshold_card_def course0_def studentA_def absent_count_def
      absence_at_def)

section \<open>The students of a group\<close>

lemma listStudentsByGroup_spec:
  "listStudentsByGroup this g =
     studentsInGroup (Map_values (studentGroupAssignments this)) (listStudents this) g"
  unfolding listStudentsByGroup_def studentsInGroup_def listStudentGroupAssignments_def
    listStudents_def Let_def
  by (rule filter_cong) (simp, force)

lemma assign_rows:
  assumes "keys_fresh (studentGroupAssignments this) (nextIds this StudentGroupAssignments)"
  shows "Map_values (studentGroupAssignments (snd (assignStudentToGroup this a))) =
           Map_values (studentGroupAssignments this) @ [fst (assignStudentToGroup this a)]"
  using keys_fresh_notin[OF assms]
  by (simp add: assignStudentToGroup_def Let_def Map_set_fresh Map_values_def)

lemma values_delete_row:
  "distinct (map fst m) \<Longrightarrow> keyed m \<Longrightarrow> (k, a) \<in> set m \<Longrightarrow>
     map snd (filter (\<lambda>e. fst e \<noteq> k) m) = remove1 a (map snd m)"
proof (induction m)
  case Nil
  then show ?case by simp
next
  case (Cons e m)
  show ?case
  proof (cases "fst e = k")
    case True
    with Cons.prems have "k \<notin> set (map fst m)" by auto
    with Cons.prems True have "snd e = a" by (cases e) force
    with True \<open>k \<notin> set (map fst m)\<close> show ?thesis by (simp add: filter_absent_key)
  next
    case False
    with Cons.prems have in_m: "(k, a) \<in> set m" by auto
    from Cons.prems have "get_prop (snd e) ''id'' = JNum (fst e)" by (simp add: keyed_def)
    moreover from Cons.prems in_m have "get_prop a ''id'' = JNum k"
      by (auto simp: keyed_def list_all_iff)
    ultimately have "snd e \<noteq> a" using False by auto
    moreover from Cons.prems in_m have "map snd (filter (\<lambda>e. fst e \<noteq> k) m) = remove1 a (map snd m)"
      by (intro Cons.IH) (simp_all add: keyed_def)
    ultimately show ?thesis using False by simp
  qed
qed

lemma remove_rows:
  assumes d: "distinct (map fst (studentGroupAssignments this))"
    and k: "keyed (studentGroupAssignments this)"
  shows "Map_values (studentGroupAssignments (snd (removeStudentFromGroup this s g))) =
     (case find (\<lambda>a. get_prop a ''studentId'' = JNum s \<and> get_prop a ''groupId'' = JNum g)
             (Map_values (studentGroupAssignments this)) of
        None \<Rightarrow> Map_values (studentGroupAssignments this)
      | Some a \<Rightarrow> remove1 a (Map_values (studentGroupAssignments this)))"
proof (cases "find (\<lambda>a. get_prop a ''studentId'' = JNum s \<and> get_prop a ''groupId'' = JNum g)
             (Map_values (studentGroupAssignments this))")
  case None
  then show ?thesis by (simp add: removeStudentFromGroup_def)
next
  case (Some a)
  then have "a \<in> set (Map_values (studentGroupAssignments this))"
    by (auto simp: find_Some_iff)
  then obtain i where i: "(i, a) \<in> set (studentGroupAssignments this)"
    by (auto simp: Map_values_def)
  with k have id: "get_prop a ''id'' = JNum i"
    by (auto simp: keyed_def list_all_iff)
  have "studentGroupAssignments (snd (removeStudentFromGroup this s g)) =
          filter (\<lambda>e. fst e \<noteq> i) (studentGroupAssignments this)"
    using Some by (simp add: removeStudentFromGroup_def split_beta snd_Map_delete_val id)
  then show ?thesis
    using Some values_delete_row[OF d k i] by (simp add: Map_values_def)
qed

text \<open>
  Claim C6. \<^verbatim>\<open>listStudentsByGroup\<close> returns the students, in the order of the student
  list, whose \<open>id\<close> is the \<open>studentId\<close> of some assignment row of the group: those and no
  others. The call that follows an assignment is computed from the rows with the new row
  added, which has the \<open>studentId\<close> and the \<open>groupId\<close> of the payload; the call that
  follows a removal is computed from the rows without the first row that matched the
  removal (all the rows, when none matched).
\<close>

theorem listStudentsByGroup_is_the_join:
  fixes this :: MemStorage and a :: obj and g s g' :: int
  defines "rows \<equiv> Map_values (studentGroupAssignments this)"
  shows
    "listStudentsByGroup this g = studentsInGroup rows (listStudents this) g
     \<and> (keys_fresh (studentGroupAssignments this) (nextIds this StudentGroupAssignments) \<longrightarrow>
          listStudentsByGroup (snd (assignStudentToGroup this a)) g =
            studentsInGroup (rows @ [fst (assignStudentToGroup this a)]) (listStudents this) g
          \<and> get_prop (fst (assignStudentToGroup this a)) ''studentId'' = get_prop a ''studentId''
          \<and> get_prop (fst (assignStudentToGroup this a)) ''groupId'' = get_prop a ''groupId'')
     \<and> (distinct (map fst (studentGroupAssignments this)) \<and> keyed (studentGroupAssignments this) \<longrightarrow>
          listStudentsByGroup (snd (removeStudentFromGroup this s g')) g =
            studentsInGroup
              (case find (\<lambda>a. get_prop a ''studentId'' = JNum s \<and> get_prop a ''groupId'' = JNum g') rows of
                 None \<Rightarrow> rows
               | Some a \<Rightarrow> remove1 a rows)
              (listStudents this) g)"
proof -
  have st1: "listStudents (snd (assignStudentToGroup this a)) = listStudents this"
    by (simp add: assignStudentToGroup_def listStudents_def Let_def)
  have st2: "listStudents (snd (removeStudentFromGroup this s g')) = listStudents this"
    by (simp add: removeStudentFromGroup_def listStudents_def split_beta split: option.splits)
  have f: "get_prop (fst (assignStudentToGroup this a)) ''studentId'' = get_prop a ''studentId''"
    "get_prop (fst (assignStudentToGroup this a)) ''groupId'' = get_prop a ''groupId''"
    by (simp_all add: assignStudentToGroup_def Let_def get_prop_def with_id_def)
  show ?thesis
    unfolding rows_def
    by (simp add: listStudentsByGroup_spec st1 st2 assign_rows remove_rows f)
qed

theorem listStudentsByGroup_is_the_join_witness:
  "keys_fresh (studentGroupAssignments demo_store) (nextIds demo_store StudentGroupAssignments)
   \<and> distinct (map fst (studentGroupAssignments demo_store))
   \<and> keyed (studentGroupAssignments demo_store)
   \<and> map (\<lambda>s. get_prop s ''id'') (listStudentsByGroup demo_store 1) = [JNum 1, JNum 3, JNum 5]
   \<and> map (\<lambda>s. get_prop s ''id'')
        (listStudentsByGroup (snd (assignStudentToGroup demo_store (assignment_data 2 1))) 1) =
       [JNum 1, JNum 2, JNum 3, JNum 5]
   \<and> map (\<lambda>s. get_prop s ''id'')
        (listStudentsByGroup (snd (removeStudentFromGroup demo_store 3 1)) 1) =
       [JNum 1, JNum 5]"
proof -
  have h1: "keys_fresh (studentGroupAssignments demo_store) (nextIds demo_store StudentGroupAssignments)"
    by (simp add: keys_fresh_def demo_assignments demo_counters)
  have h2: "distinct (map fst (studentGroupAssignments demo_store)) \<and> keyed (studentGroupAssignments demo_store)"
    by (simp add: keyed_def demo_assignments assignment_props)
  have new: "fst (assignStudentToGroup demo_store (assignment_data 2 1)) = with_id (assignment_data 2 1) 4"
    by (simp add: assignStudentToGroup_def Let_def demo_counters)
  from listStudentsByGroup_is_the_join
         [where this = demo_store and g = 1 and a = "assignment_data 2 1" and s = 3 and g' = 1]
       h1 h2
  show ?thesis
    by (simp add: new studentsInGroup_def listStudents_def Map_values_def demo_students
        demo_assignments assignment_props with_id_differs)
qed

section \<open>The batch creation of absences\<close>

text \<open>
  Claim C7. \<^verbatim>\<open>batchCreateAbsences\<close> returns as many records as it is given inputs. The
  record at position \<open>i\<close> is the input at position \<open>i\<close> with the \<open>id\<close> that the counter
  had at the call, plus \<open>i\<close>: its other fields are those of the input, and the
  identifiers of the results differ from one another. When the table of the absences is
  well kept, the results are appended to the collection in the order of the inputs, each
  is stored under its identifier, and no identifier of the collection occurs twice, so
  the new ones differ from all the others.
\<close>

theorem batchCreateAbsences_is_positional:
  fixes this :: MemStorage and inputs :: "obj list"
  defines "n \<equiv> nextIds this Absences"
  defines "results \<equiv> fst (batchCreateAbsences this inputs)"
    and "this' \<equiv> snd (batchCreateAbsences this inputs)"
  shows
    "length results = length inputs
     \<and> results = map2 with_id inputs [n .. n + int (length inputs) - 1]
     \<and> map (\<lambda>r. get_prop r ''id'') results = map JNum [n .. n + int (length inputs) - 1]
     \<and> distinct (map (\<lambda>r. get_prop r ''id'') results)
     \<and> (\<forall>i < length inputs.
           get_prop (results ! i) ''id'' = JNum (n + int i)
         \<and> (\<forall>f. f \<noteq> ''id'' \<longrightarrow> get_prop (results ! i) f = get_prop (inputs ! i) f))
     \<and> (keys_fresh (absences this) n \<longrightarrow>
           listAbsences this' = listAbsences this @ results
         \<and> map fst (absences this') = map fst (absences this) @ [n .. n + int (length inputs) - 1]
         \<and> distinct (map fst (absences this'))
         \<and> (\<forall>i < length inputs. getAbsence this' (n + int i) = Some (results ! i)))"
proof -
  have c: "results = map2 with_id inputs [n .. n + int (length inputs) - 1]"
    unfolding results_def batchCreateAbsences_def n_def by (subst batch_loop) simp
  have len: "length results = length inputs"
    by (simp add: c)
  have ids: "map (\<lambda>r. get_prop r ''id'') results = map JNum [n .. n + int (length inputs) - 1]"
    unfolding c by (simp only: ids_map2_with_id length_upto_nat)
  have dist: "distinct (map (\<lambda>r. get_prop r ''id'') results)"
    unfolding ids by (simp add: distinct_map inj_on_def)
  have pos: "\<And>i. i < length inputs \<Longrightarrow> results ! i = with_id (inputs ! i) (n + int i)"
    unfolding c by simp
  have fields: "\<forall>i < length inputs.
           get_prop (results ! i) ''id'' = JNum (n + int i)
         \<and> (\<forall>f. f \<noteq> ''id'' \<longrightarrow> get_prop (results ! i) f = get_prop (inputs ! i) f)"
    by (simp add: pos get_prop_def with_id_def)
  have stored: "listAbsences this' = listAbsences this @ results
         \<and> map fst (absences this') = map fst (absences this) @ [n .. n + int (length inputs) - 1]
         \<and> distinct (map fst (absences this'))
         \<and> (\<forall>i < length inputs. getAbsence this' (n + int i) = Some (results ! i))"
    if wf: "keys_fresh (absences this) n"
  proof -
    have tab: "absences this' = absences this @ zip [n .. n + int (length inputs) - 1] results"
      unfolding this'_def batchCreateAbsences_def snd_batch_loop c n_def
      using wf[unfolded n_def] by (rule absences_fold_createAbsence)
    have keys: "map fst (absences this') = map fst (absences this) @ [n .. n + int (length inputs) - 1]"
      by (simp add: tab len)
    have vals: "listAbsences this' = listAbsences this @ results"
      by (simp add: listAbsences_def Map_values_def tab len)
    have d: "distinct (map fst (absences this'))"
      using wf by (auto simp: keys keys_fresh_def list_all_iff)
    have "getAbsence this' (n + int i) = Some (results ! i)" if "i < length inputs" for i
    proof -
      have "(n + int i, results ! i) \<in> set (zip [n .. n + int (length inputs) - 1] results)"
        using that len by (auto simp: set_zip intro!: exI[of _ i])
      then have "(n + int i, results ! i) \<in> set (absences this')"
        by (simp add: tab)
      with d show ?thesis
        by (simp add: getAbsence_def Map_get_def)
    qed
    with keys vals d show ?thesis by simp
  qed
  from c len ids dist fields stored show ?thesis by blast
qed

theorem batchCreateAbsences_is_positional_witness:
  "keys_fresh (absences demo_store) (nextIds demo_store Absences)
   \<and> fst (batchCreateAbsences demo_store
           [absence_data 1 1 ''absent'', absence_data 1 2 ''present'', absence_data 1 3 ''absent'']) =
       [with_id (absence_data 1 1 ''absent'') 1, with_id (absence_data 1 2 ''present'') 2,
        with_id (absence_data 1 3 ''absent'') 3]
   \<and> listAbsences (snd (batchCreateAbsences demo_store
           [absence_data 1 1 ''absent'', absence_data 1 2 ''present'', absence_data 1 3 ''absent''])) =
       [with_id (absence_data 1 1 ''absent'') 1, with_id (absence_data 1 2 ''present'') 2,
        with_id (absence_data 1 3 ''absent'') 3]
   \<and> get_prop (with_id (absence_data 1 2 ''present'') 2) ''status'' = JStr ''present''
   \<and> get_prop (with_id (absence_data 1 2 ''present'') 2) ''studentId'' = JNum 2"
proof -
  have h: "keys_fresh (absences demo_store) (nextIds demo_store Absences)"
    by (simp add: keys_fresh_def demo_counters)
  have up: "[1 .. 3::int] = [1, 2, 3]"
    by (simp add: upto_rec1)
  have p: "get_prop (with_id (absence_data 1 2 ''present'') 2) ''status'' = JStr ''present''"
    "get_prop (with_id (absence_data 1 2 ''present'') 2) ''studentId'' = JNum 2"
    by (simp_all add: get_prop_def with_id_def absence_data_def)
  from batchCreateAbsences_is_positional[of demo_store
      "[absence_data 1 1 ''absent'', absence_data 1 2 ''present'', absence_data 1 3 ''absent'']"] h p
  show ?thesis
    by (simp add: demo_counters up listAbsences_def Map_values_def)
qed

section \<open>Deleting a course does not cascade\<close>

text \<open>
  Claim C8. \<^verbatim>\<open>deleteCourse\<close> answers whether the course was there, and the store it leaves
  differs from the store it was given in the map of the courses only, from which the
  entry of the identifier is gone. The modules, the students and the student groups are
  the same: their maps, their lists, their lists by course for the deleted course (the
  records that now refer to no course), and what \<^verbatim>\<open>get\<close> returns for each of them.
\<close>

theorem deleteCourse_does_not_cascade:
  fixes this :: MemStorage and i k :: int
  defines "this' \<equiv> snd (deleteCourse this i)"
  shows
    "fst (deleteCourse this i) = Map_has (courses this) i
     \<and> this' = this\<lparr>courses := filter (\<lambda>e. fst e \<noteq> i) (courses this)\<rparr>
     \<and> getCourse this' i = None
     \<and> modules this' = modules this
     \<and> students this' = students this
     \<and> studentGroups this' = studentGroups this
     \<and> listModules this' = listModules this
     \<and> listStudents this' = listStudents this
     \<and> listStudentGroups this' = listStudentGroups this
     \<and> listModulesByCourse this' i = listModulesByCourse this i
     \<and> listStudentsByCourse this' i = listStudentsByCourse this i
     \<and> listStudentGroupsByCourse this' i = listStudentGroupsByCourse this i
     \<and> getModule this' k = getModule this k
     \<and> getStudent this' k = getStudent this k
     \<and> getStudentGroup this' k = getStudentGroup this k"
  unfolding this'_def
  by (simp add: deleteCourse_def Map_delete_def getCourse_def Map_get_filter
      listModules_def listStudents_def listStudentGroups_def
      listModulesByCourse_def listStudentsByCourse_def listStudentGroupsByCourse_def
      getModule_def getStudent_def getStudentGroup_def)

section \<open>Creation does not check uniqueness\<close>

text \<open>
  Claim C9. For each of the nine entities and every two payloads, whatever fields they
  share, two successive creations return two records with consecutive, hence different,
  identifiers. Each record has the fields of its payload (so the records agree on every
  field other than \<open>id\<close> on which the payloads agree, a user name or an email, say),
  each is stored under its identifier, and both are in the list of the collection
  afterwards.
\<close>

theorem create_accepts_duplicates:
  fixes this :: MemStorage and data1 data2 :: obj and e :: entity
  defines "n \<equiv> nextIds this (coll_of e)"
  defines "r1 \<equiv> fst (create_in (coll_of e) this data1)"
    and "this1 \<equiv> snd (create_in (coll_of e) this data1)"
  defines "r2 \<equiv> fst (create_in (coll_of e) this1 data2)"
    and "this2 \<equiv> snd (create_in (coll_of e) this1 data2)"
  shows
    "get_prop r1 ''id'' = JNum n
     \<and> get_prop r2 ''id'' = JNum (n + 1)
     \<and> get_prop r1 ''id'' \<noteq> get_prop r2 ''id''
     \<and> (\<forall>f. f \<noteq> ''id'' \<longrightarrow> get_prop r1 f = get_prop data1 f \<and> get_prop r2 f = get_prop data2 f)
     \<and> (\<forall>f. f \<noteq> ''id'' \<longrightarrow> get_prop data1 f = get_prop data2 f \<longrightarrow> get_prop r1 f = get_prop r2 f)
     \<and> get_in e this2 n = Some r1
     \<and> get_in e this2 (n + 1) = Some r2
     \<and> r1 \<in> set (list_in e this2)
     \<and> r2 \<in> set (list_in e this2)"
proof -
  have r1: "r1 = with_id data1 n" and r2: "r2 = with_id data2 (n + 1)"
    by (simp_all add: r1_def r2_def this1_def n_def fst_create_in nextIds_create_in)
  have g1: "get_in e this2 n = Some r1" and g2: "get_in e this2 (n + 1) = Some r2"
    by (simp_all add: get_in_table this2_def this1_def table_create_in nextIds_create_in
        Map_get_Map_set r1 r2 n_def)
  have "r1 \<in> set (list_in e this2)" "r2 \<in> set (list_in e this2)"
    using g1 g2 by (simp_all add: list_in_table get_in_table Map_values_member)
  then show ?thesis
    using g1 g2 by (simp add: r1 r2 get_prop_def with_id_def)
qed

theorem create_accepts_duplicates_witness:
  "get_prop applicant1 ''username'' = get_prop applicant2 ''username''
   \<and> get_prop applicant1 ''email'' = get_prop applicant2 ''email''
   \<and> get_prop (fst (createUser new_MemStorage applicant1)) ''id'' = JNum 4
   \<and> get_prop (fst (createUser (snd (createUser new_MemStorage applicant1)) applicant2)) ''id'' = JNum 5
   \<and> get_prop (fst (createUser new_MemStorage applicant1)) ''username'' = JStr ''sam''
   \<and> get_prop (fst (createUser (snd (createUser new_MemStorage applicant1)) applicant2)) ''username'' = JStr ''sam''
   \<and> fst (createUser new_MemStorage applicant1)
        \<in> set (listUsers (snd (createUser (snd (createUser new_MemStorage applicant1)) applicant2)))
   \<and> fst (createUser (snd (createUser new_MemStorage applicant1)) applicant2)
        \<in> set (listUsers (snd (createUser (snd (createUser new_MemStorage applicant1)) applicant2)))"
proof -
  have n: "nextIds new_MemStorage Users = 4"
    by (simp add: new_MemStorage_def createUser_def fresh_fields_def Let_def)
  have u: "get_prop applicant1 ''username'' = JStr ''sam''" "get_prop applicant2 ''username'' = JStr ''sam''"
     "get_prop applicant1 ''email'' = get_prop applicant2 ''email''"
    by (simp_all add: get_prop_def applicant1_def applicant2_def)
  from create_accepts_duplicates[of EUser new_MemStorage applicant1 applicant2]
  show ?thesis using n u by simp
qed

section \<open>A student is listed once\<close>

lemma keyed_ids: "keyed m \<Longrightarrow> map (\<lambda>s. get_prop s ''id'') (Map_values m) = map JNum (map fst m)"
  by (induction m) (simp_all add: keyed_def Map_values_def)

lemma distinct_ids:
  assumes "distinct (map fst m)" "keyed m"
  shows "distinct (map (\<lambda>s. get_prop s ''id'') (Map_values m))"
  using assms by (simp add: keyed_ids distinct_map inj_on_def)

lemma studentsInGroup_duplicate_row:
  assumes "r \<in> set rows" "get_prop r ''studentId'' = get_prop r' ''studentId''"
    "get_prop r ''groupId'' = get_prop r' ''groupId''"
  shows "studentsInGroup (rows @ [r']) studs g = studentsInGroup rows studs g"
  unfolding studentsInGroup_def using assms by (intro filter_cong) auto

lemma count_list_distinct: "distinct xs \<Longrightarrow> count_list xs x \<le> 1"
  by (induction xs) auto

text \<open>
  Claim C10. When the table of the students has no key twice and is keyed, the result of
  \<^verbatim>\<open>listStudentsByGroup\<close> has no identifier twice and no student twice, however many
  assignment rows there are for a student and the group. Assigning a pair of student and
  group that already has a row leaves the result as it was, for every group.
\<close>

theorem listStudentsByGroup_lists_each_student_once:
  "distinct (map fst (students this)) \<and> keyed (students this) \<Longrightarrow>
     distinct (map (\<lambda>s. get_prop s ''id'') (listStudentsByGroup this g))
   \<and> distinct (listStudentsByGroup this g)
   \<and> count_list (listStudentsByGroup this g) s \<le> 1
   \<and> (keys_fresh (studentGroupAssignments this) (nextIds this StudentGroupAssignments)
        \<and> r \<in> set (Map_values (studentGroupAssignments this))
        \<and> get_prop r ''studentId'' = get_prop a ''studentId''
        \<and> get_prop r ''groupId'' = get_prop a ''groupId'' \<longrightarrow>
          listStudentsByGroup (snd (assignStudentToGroup this a)) g = listStudentsByGroup this g)"
proof -
  assume wf: "distinct (map fst (students this)) \<and> keyed (students this)"
  then have "distinct (map (\<lambda>s. get_prop s ''id'') (listStudents this))"
    by (simp add: listStudents_def distinct_ids)
  then have d: "distinct (map (\<lambda>s. get_prop s ''id'') (listStudentsByGroup this g))"
    by (simp add: listStudentsByGroup_spec studentsInGroup_def distinct_map_filter)
  then have d': "distinct (listStudentsByGroup this g)"
    by (simp add: distinct_map)
  then have c: "count_list (listStudentsByGroup this g) s \<le> 1"
    by (rule count_list_distinct)
  have st1: "listStudents (snd (assignStudentToGroup this a)) = listStudents this"
    by (simp add: assignStudentToGroup_def listStudents_def Let_def)
  have f: "get_prop (fst (assignStudentToGroup this a)) ''studentId'' = get_prop a ''studentId''"
    "get_prop (fst (assignStudentToGroup this a)) ''groupId'' = get_prop a ''groupId''"
    by (simp_all add: assignStudentToGroup_def Let_def get_prop_def with_id_def)
  show ?thesis
    using d d' c
    by (auto simp: listStudentsByGroup_spec st1 assign_rows f studentsInGroup_duplicate_row)
qed

theorem listStudentsByGroup_lists_each_student_once_witness:
  "distinct (map fst (students demo_store)) \<and> keyed (students demo_store)
   \<and> keys_fresh (studentGroupAssignments demo_store) (nextIds demo_store StudentGroupAssignments)
   \<and> with_id (assignment_data 3 1) 3 \<in> set (Map_values (studentGroupAssignments demo_store))
   \<and> map (\<lambda>r. (get_prop r ''studentId'', get_prop r ''groupId''))
        (Map_values (studentGroupAssignments (snd (assignStudentToGroup demo_store (assignment_data 3 1))))) =
       [(JNum 5, JNum 1), (JNum 1, JNum 1), (JNum 3, JNum 1), (JNum 3, JNum 1)]
   \<and> map (\<lambda>s. get_prop s ''id'')
        (listStudentsByGroup (snd (assignStudentToGroup demo_store (assignment_data 3 1))) 1) =
       [JNum 1, JNum 3, JNum 5]
   \<and> distinct (listStudentsByGroup demo_store 1)"
proof -
  have h: "distinct (map fst (students demo_store)) \<and> keyed (students demo_store)"
    by (simp add: keyed_def demo_students assignment_props)
  have h1: "keys_fresh (studentGroupAssignments demo_store) (nextIds demo_store StudentGroupAssignments)"
    by (simp add: keys_fresh_def demo_assignments demo_counters)
  have r: "with_id (assignment_data 3 1) 3 \<in> set (Map_values (studentGroupAssignments demo_store))"
    by (simp add: Map_values_def demo_assignments)
  have rows: "map (\<lambda>r. (get_prop r ''studentId'', get_prop r ''groupId''))
        (Map_values (studentGroupAssignments (snd (assignStudentToGroup demo_store (assignment_data 3 1))))) =
       [(JNum 5, JNum 1), (JNum 1, JNum 1), (JNum 3, JNum 1), (JNum 3, JNum 1)]"
    by (simp add: assignStudentToGroup_def Let_def Map_values_def demo_assignments demo_counters
        assignment_props)
  have l: "map (\<lambda>s. get_prop s ''id'') (listStudentsByGroup demo_store 1) = [JNum 1, JNum 3, JNum 5]"
    by (simp add: listStudentsByGroup_def listStudentGroupAssignments_def Let_def Map_values_def
        demo_students demo_assignments assignment_props)
  from listStudentsByGroup_lists_each_student_once
         [OF h, where g = 1 and r = "with_id (assignment_data 3 1) 3" and a = "assignment_data 3 1"]
       h h1 r rows l
  show ?thesis
    by (simp add: assignment_props)
qed

end
